theory Spec2Isabelle
  imports Main "HOL-Library.Word" "HOL-Library.AList" "HOL-Library.Code_Target_Numeral"
begin

unbundle bit_operations_syntax

section \<open>Trace-context propagation (ddtrace/tracer/textmap.go)\<close>

text \<open>
  A shallow embedding of the text-map propagators of package \<open>tracer\<close>: the first-party
  (Datadog) format, the B3 format, the W3C format and the chained propagator that
  composes them. Go strings are byte strings (\<open>string\<close>, a list of \<open>char\<close>), \<open>uint64\<close>
  is \<open>64 word\<close>, \<open>int\<close> is a mathematical integer where no arithmetic is done on it.
  Calls to the logger (\<open>log.Warn\<close>, \<open>log.Debug\<close>) have no effect on any value the
  functions return or store and are left out.
\<close>

subsection \<open>The pieces of Go's standard library that the file calls\<close>

text \<open>\<open>strings.ToLower\<close> on bytes: the letters \<open>A\<close> to \<open>Z\<close> are mapped to \<open>a\<close> to \<open>z\<close>.
  (On a string that is not ASCII, Go also maps the upper-case letters of other scripts;
  header names are ASCII.)\<close>

definition toLowerByte :: "char \<Rightarrow> char" where
  "toLowerByte c =
     (let n = (of_char c :: nat) in if 65 \<le> n \<and> n \<le> 90 then char_of (n + 32) else c)"

definition strings_ToLower :: "string \<Rightarrow> string" where
  "strings_ToLower s = map toLowerByte s"

definition strings_HasPrefix :: "string \<Rightarrow> string \<Rightarrow> bool" where
  "strings_HasPrefix s p = (take (length p) s = p)"

definition strings_TrimPrefix :: "string \<Rightarrow> string \<Rightarrow> string" where
  "strings_TrimPrefix s p = (if strings_HasPrefix s p then drop (length p) s else s)"

text \<open>\<open>strings.Split(s, sep)\<close> for a one-byte separator: the pieces between the
  separators, the empty string giving one empty piece.\<close>

fun strings_Split :: "string \<Rightarrow> char \<Rightarrow> string list" where
  "strings_Split [] sep = [[]]"
| "strings_Split (c # cs) sep =
     (if c = sep then [] # strings_Split cs sep
      else (case strings_Split cs sep of
              [] \<Rightarrow> [[c]]
            | w # ws \<Rightarrow> (c # w) # ws))"

text \<open>The value of a digit as \<open>strconv\<close> reads it: \<open>0\<close>-\<open>9\<close>, then the letters of
  either case from 10 on.\<close>

definition digitVal :: "char \<Rightarrow> nat option" where
  "digitVal c =
     (let n = (of_char c :: nat) in
      if 48 \<le> n \<and> n \<le> 57 then Some (n - 48)
      else if 97 \<le> n \<and> n \<le> 122 then Some (n - 97 + 10)
      else if 65 \<le> n \<and> n \<le> 90 then Some (n - 65 + 10)
      else None)"

fun parseDigits :: "nat \<Rightarrow> nat \<Rightarrow> string \<Rightarrow> nat option" where
  "parseDigits base n [] = Some n"
| "parseDigits base n (c # cs) =
     (case digitVal c of
        None \<Rightarrow> None
      | Some d \<Rightarrow> if base \<le> d then None else parseDigits base (n * base + d) cs)"

text \<open>\<open>strconv.ParseUint(s, base, 64)\<close> for a base from 2 to 36: \<open>None\<close> stands for a
  non-nil error (empty input, a byte that is no digit of the base, or a value that does
  not fit 64 bits).\<close>

definition strconv_ParseUint :: "string \<Rightarrow> nat \<Rightarrow> 64 word option" where
  "strconv_ParseUint s base =
     (if s = [] then None
      else (case parseDigits base 0 s of
              None \<Rightarrow> None
            | Some n \<Rightarrow> if n < 2 ^ 64 then Some (word_of_nat n) else None))"

text \<open>\<open>strconv.Atoi\<close> with a 64-bit \<open>int\<close>: an optional sign, then decimal digits.\<close>

definition strconv_Atoi :: "string \<Rightarrow> int option" where
  "strconv_Atoi s =
     (case s of
        [] \<Rightarrow> None
      | c # cs \<Rightarrow>
          (let ds = (if c = CHR ''-'' \<or> c = CHR ''+'' then cs else s) in
           if ds = [] then None
           else (case parseDigits 10 0 ds of
                   None \<Rightarrow> None
                 | Some n \<Rightarrow>
                     if c = CHR ''-''
                     then (if n \<le> 2 ^ 63 then Some (- int n) else None)
                     else (if n < 2 ^ 63 then Some (int n) else None))))"

definition digitChar :: "nat \<Rightarrow> char" where
  "digitChar d = ''0123456789abcdefghijklmnopqrstuvwxyz'' ! d"

text \<open>The digits of a number in a base, most significant first, in lower case.\<close>

function formatBase :: "nat \<Rightarrow> nat \<Rightarrow> string" where
  "formatBase base n =
     (if base < 2 \<or> n < base then [digitChar n]
      else formatBase base (n div base) @ [digitChar (n mod base)])"
  by pat_completeness auto
termination
  by (relation "measure snd") auto

declare formatBase.simps [simp del]

definition strconv_FormatUint :: "64 word \<Rightarrow> nat \<Rightarrow> string" where
  "strconv_FormatUint w base = formatBase base (unat w)"

definition strconv_Itoa :: "int \<Rightarrow> string" where
  "strconv_Itoa i = (if i < 0 then CHR ''-'' # formatBase 10 (nat (- i)) else formatBase 10 (nat i))"

text \<open>\<open>fmt.Sprintf("%0<width>x", w)\<close> for an unsigned \<open>w\<close>: lower-case hexadecimal,
  padded with zeros on the left up to the width.\<close>

definition fmt_0x :: "nat \<Rightarrow> 64 word \<Rightarrow> string" where
  "fmt_0x width w =
     (let s = formatBase 16 (unat w) in replicate (width - length s) (CHR ''0'') @ s)"

subsection \<open>Errors, span contexts and trace state\<close>

text \<open>The four error values the file returns; \<open>OtherError\<close> is any other error a
  propagator supplied by the caller may return.\<close>

datatype error =
    ErrInvalidCarrier
  | ErrInvalidSpanContext
  | ErrSpanContextNotFound
  | ErrSpanContextCorrupted
  | OtherError string

text \<open>A call either returns or panics.\<close>

datatype 'a outcome = Return 'a | Panic string

datatype SamplerName = Unknown | Sampler nat

text \<open>
  Modelled from the spec: the types \<open>trace\<close> and \<open>spanContext\<close> and their methods
  \<open>newTrace\<close>, \<open>setTag\<close>, \<open>samplingPriority\<close>, \<open>setSamplingPriority\<close> and
  \<open>setBaggageItem\<close> are declared in other files of the package. The trace state holds the
  propagating tags (a Go map, \<open>None\<close> when nil, otherwise its pairs in the order a
  \<open>range\<close> statement visits them) and the local tags that \<open>setTag\<close> writes. The span
  context holds the two 64-bit ids (zero for absent), the optional sampling priority
  with its provenance, the origin, the baggage (in \<open>range\<close> order), the flag
  \<open>updated\<close> and the trace state it refers to (\<open>None\<close> for a nil pointer).
\<close>

record trace =
  propagatingTags :: "(string \<times> string) list option"
  tags :: "string \<rightharpoonup> string"

record spanContext =
  traceID :: "64 word"
  spanID :: "64 word"
  prio :: "(int \<times> SamplerName) option"
  origin :: string
  baggage :: "(string \<times> string) list"
  updated :: bool
  trace :: "trace option"

text \<open>The zero value \<open>var ctx spanContext\<close>.\<close>

definition zeroSpanContext :: spanContext where
  "zeroSpanContext =
     \<lparr>traceID = 0, spanID = 0, prio = None, origin = [], baggage = [],
      updated = False, trace = None\<rparr>"

definition newTrace :: trace where
  "newTrace = \<lparr>propagatingTags = None, tags = Map.empty\<rparr>"

definition setTag :: "trace \<Rightarrow> string \<Rightarrow> string \<Rightarrow> trace" where
  "setTag t k v = t\<lparr>tags := (tags t)(k \<mapsto> v)\<rparr>"

text \<open>\<open>ctx.samplingPriority()\<close> returns the priority and whether there is one.\<close>

definition samplingPriority :: "spanContext \<Rightarrow> int \<times> bool" where
  "samplingPriority ctx = (case prio ctx of None \<Rightarrow> (0, False) | Some (p, _) \<Rightarrow> (p, True))"

text \<open>Setting a priority that differs from the one already there marks the context as
  updated.\<close>

definition setSamplingPriority :: "spanContext \<Rightarrow> int \<Rightarrow> SamplerName \<Rightarrow> spanContext" where
  "setSamplingPriority ctx p sampler =
     ctx\<lparr>prio := Some (p, sampler),
         updated := (updated ctx \<or> (case prio ctx of None \<Rightarrow> False | Some (q, _) \<Rightarrow> q \<noteq> p))\<rparr>"

definition setBaggageItem :: "spanContext \<Rightarrow> string \<Rightarrow> string \<Rightarrow> spanContext" where
  "setBaggageItem ctx k v = ctx\<lparr>baggage := AList.update k v (baggage ctx)\<rparr>"

text \<open>Modelled from the spec: the constants \<open>keyPropagationError\<close> (the name of the
  local tag that records a propagation diagnostic) and \<open>ext.PriorityAutoKeep\<close> (the
  priority 1, "auto-keep") are declared in other files of the package.\<close>

definition keyPropagationError :: string where
  "keyPropagationError = ''_dd.propagation_error''"

definition PriorityAutoKeep :: int where
  "PriorityAutoKeep = 1"

text \<open>A value of the interface \<open>ddtrace.SpanContext\<close>: a \<open>*spanContext\<close>, or a value of
  any other dynamic type (the nil interface included), for which the type assertion
  \<open>spanCtx.(*spanContext)\<close> fails.\<close>

datatype SpanContext = SpanContextPtr spanContext | OtherSpanContext

subsection \<open>Carriers\<close>

text \<open>
  A \<open>TextMapReader\<close> is given by the pairs its \<open>ForeachKey\<close> hands to the handler, in
  the order of the visit (for \<open>TextMapCarrier\<close>, a Go map, any enumeration of it; for
  \<open>HTTPHeadersCarrier\<close> one pair per value). A \<open>TextMapWriter\<close> receives \<open>Set\<close> calls;
  an injection is described by the calls it makes, in order. A carrier is a value of any
  type: one that implements both interfaces (as \<open>TextMapCarrier\<close> and
  \<open>HTTPHeadersCarrier\<close> do), only the reader, only the writer, or neither.
\<close>

datatype carrier =
    TextMap "(string \<times> string) list"
  | ReaderOnly "(string \<times> string) list"
  | WriterOnly
  | NoTextMap

text \<open>\<open>ForeachKey\<close>: the handler runs on each pair, threading the state it captures;
  its first error stops the visit and is returned.\<close>

fun ForeachKey :: "('s \<Rightarrow> string \<Rightarrow> string \<Rightarrow> error + 's) \<Rightarrow> 's \<Rightarrow> (string \<times> string) list \<Rightarrow> error + 's" where
  "ForeachKey handler s [] = Inr s"
| "ForeachKey handler s ((k, v) # kvs) =
     (case handler s k v of
        Inl e \<Rightarrow> Inl e
      | Inr s' \<Rightarrow> ForeachKey handler s' kvs)"

text \<open>\<open>TextMapCarrier.Set\<close> on a \<open>map[string]string\<close>, and a sequence of such calls.\<close>

definition TextMapCarrier_Set :: "(string \<rightharpoonup> string) \<Rightarrow> string \<Rightarrow> string \<Rightarrow> (string \<rightharpoonup> string)" where
  "TextMapCarrier_Set c key val = c(key \<mapsto> val)"

fun TextMapCarrier_Sets :: "(string \<rightharpoonup> string) \<Rightarrow> (string \<times> string) list \<Rightarrow> (string \<rightharpoonup> string)" where
  "TextMapCarrier_Sets c [] = c"
| "TextMapCarrier_Sets c ((k, v) # kvs) = TextMapCarrier_Sets (TextMapCarrier_Set c k v) kvs"

text \<open>What an injection did: the state of the span context afterwards (the trace
  state it points to may have been tagged), the \<open>Set\<close> calls made on the writer, and
  the error returned (\<open>None\<close> for nil) or the panic.\<close>

record injection =
  ctxAfter :: SpanContext
  sets :: "(string \<times> string) list"
  result :: "error option outcome"

text \<open>What an extraction returned: the context (\<open>None\<close> for nil) and the error.\<close>

type_synonym extraction = "(SpanContext option \<times> error option) outcome"

subsection \<open>The B3 propagator\<close>

definition b3TraceIDHeader :: string where "b3TraceIDHeader = ''x-b3-traceid''"
definition b3SpanIDHeader :: string where "b3SpanIDHeader = ''x-b3-spanid''"
definition b3SampledHeader :: string where "b3SampledHeader = ''x-b3-sampled''"

definition propagatorB3_injectTextMap :: "SpanContext \<Rightarrow> injection" where
  "propagatorB3_injectTextMap spanCtx =
     (case spanCtx of
        OtherSpanContext \<Rightarrow>
          \<lparr>ctxAfter = spanCtx, sets = [], result = Return (Some ErrInvalidSpanContext)\<rparr>
      | SpanContextPtr ctx \<Rightarrow>
          if traceID ctx = 0 \<or> spanID ctx = 0
          then \<lparr>ctxAfter = spanCtx, sets = [], result = Return (Some ErrInvalidSpanContext)\<rparr>
          else
            \<lparr>ctxAfter = spanCtx,
             sets =
               [(b3TraceIDHeader, fmt_0x 16 (traceID ctx)),
                (b3SpanIDHeader, fmt_0x 16 (spanID ctx))] @
               (case samplingPriority ctx of
                  (p, ok) \<Rightarrow>
                    if ok
                    then (if PriorityAutoKeep \<le> p then [(b3SampledHeader, ''1'')]
                          else [(b3SampledHeader, ''0'')])
                    else []),
             result = Return None\<rparr>)"

definition propagatorB3_Inject :: "SpanContext \<Rightarrow> carrier \<Rightarrow> injection" where
  "propagatorB3_Inject spanCtx c =
     (case c of
        TextMap _ \<Rightarrow> propagatorB3_injectTextMap spanCtx
      | WriterOnly \<Rightarrow> propagatorB3_injectTextMap spanCtx
      | _ \<Rightarrow> \<lparr>ctxAfter = spanCtx, sets = [], result = Return (Some ErrInvalidCarrier)\<rparr>)"

definition propagatorB3_extractHandler :: "spanContext \<Rightarrow> string \<Rightarrow> string \<Rightarrow> error + spanContext" where
  "propagatorB3_extractHandler ctx k v =
     (let key = strings_ToLower k in
      if key = b3TraceIDHeader then
        (let v' = (if 16 < length v then drop (length v - 16) v else v) in
         case strconv_ParseUint v' 16 of
           None \<Rightarrow> Inl ErrSpanContextCorrupted
         | Some n \<Rightarrow> Inr (ctx\<lparr>traceID := n\<rparr>))
      else if key = b3SpanIDHeader then
        (case strconv_ParseUint v 16 of
           None \<Rightarrow> Inl ErrSpanContextCorrupted
         | Some n \<Rightarrow> Inr (ctx\<lparr>spanID := n\<rparr>))
      else if key = b3SampledHeader then
        (case strconv_Atoi v of
           None \<Rightarrow> Inl ErrSpanContextCorrupted
         | Some p \<Rightarrow> Inr (setSamplingPriority ctx p Unknown))
      else Inr ctx)"

definition propagatorB3_extractTextMap :: "(string \<times> string) list \<Rightarrow> extraction" where
  "propagatorB3_extractTextMap reader =
     (case ForeachKey propagatorB3_extractHandler zeroSpanContext reader of
        Inl err \<Rightarrow> Return (None, Some err)
      | Inr ctx \<Rightarrow>
          if traceID ctx = 0 \<or> spanID ctx = 0 then Return (None, Some ErrSpanContextNotFound)
          else Return (Some (SpanContextPtr ctx), None))"

definition propagatorB3_Extract :: "carrier \<Rightarrow> extraction" where
  "propagatorB3_Extract c =
     (case c of
        TextMap reader \<Rightarrow> propagatorB3_extractTextMap reader
      | ReaderOnly reader \<Rightarrow> propagatorB3_extractTextMap reader
      | _ \<Rightarrow> Return (None, Some ErrInvalidCarrier))"

subsection \<open>The first-party propagator\<close>

record PropagatorConfig =
  BaggagePrefix :: string
  TraceHeader :: string
  ParentHeader :: string
  PriorityHeader :: string
  MaxTagsHeaderLen :: int
  B3 :: bool

definition DefaultBaggageHeaderPrefix :: string where "DefaultBaggageHeaderPrefix = ''ot-baggage-''"
definition DefaultTraceIDHeader :: string where "DefaultTraceIDHeader = ''x-datadog-trace-id''"
definition DefaultParentIDHeader :: string where "DefaultParentIDHeader = ''x-datadog-parent-id''"
definition DefaultPriorityHeader :: string where "DefaultPriorityHeader = ''x-datadog-sampling-priority''"
definition originHeader :: string where "originHeader = ''x-datadog-origin''"
definition traceTagsHeader :: string where "traceTagsHeader = ''x-datadog-tags''"
definition propagationExtractMaxSize :: nat where "propagationExtractMaxSize = 512"

text \<open>
  Three functions of the package are declared in other files of the package and are taken
  as parameters, so that what is proved holds for whatever they compute:
  \<open>parseUint64\<close> (\<open>None\<close> for a non-nil error), \<open>isValidPropagatableTag\<close> (true when it
  returns a nil error) and \<open>parsePropagatableTraceTags\<close> (the map and the error it
  returns).
\<close>

record helpers =
  parseUint64 :: "string \<Rightarrow> 64 word option"
  isValidPropagatableTag :: "string \<Rightarrow> string \<Rightarrow> bool"
  parsePropagatableTraceTags :: "string \<Rightarrow> (string \<times> string) list option \<times> error option"

text \<open>The loop of \<open>marshalPropagatingTags\<close> over the propagating tags, with the string
  builder and the trace state it tags.\<close>

fun marshalPropagatingTags_loop ::
  "helpers \<Rightarrow> int \<Rightarrow> (string \<times> string) list \<Rightarrow> string \<Rightarrow> trace \<Rightarrow> string \<times> trace" where
  "marshalPropagatingTags_loop h maxLen [] sb t = (sb, t)"
| "marshalPropagatingTags_loop h maxLen ((k, v) # kvs) sb t =
     (if \<not> isValidPropagatableTag h k v
      then marshalPropagatingTags_loop h maxLen kvs sb (setTag t keyPropagationError ''encoding_error'')
      else if maxLen < int (length sb) + int (length k) + int (length v)
      then ([], setTag t keyPropagationError ''inject_max_size'')
      else marshalPropagatingTags_loop h maxLen kvs
             ((if 0 < length sb then sb @ '','' else sb) @ k @ ''='' @ v) t)"

definition marshalPropagatingTags :: "helpers \<Rightarrow> PropagatorConfig \<Rightarrow> spanContext \<Rightarrow> string \<times> spanContext" where
  "marshalPropagatingTags h cfg ctx =
     (case trace ctx of
        None \<Rightarrow> ([], ctx)
      | Some t \<Rightarrow>
          (case marshalPropagatingTags_loop h (MaxTagsHeaderLen cfg)
                  (case propagatingTags t of None \<Rightarrow> [] | Some kvs \<Rightarrow> kvs) [] t of
             (s, t') \<Rightarrow> (s, ctx\<lparr>trace := Some t'\<rparr>)))"

definition propagator_injectTextMap :: "helpers \<Rightarrow> PropagatorConfig \<Rightarrow> SpanContext \<Rightarrow> injection" where
  "propagator_injectTextMap h cfg spanCtx =
     (case spanCtx of
        OtherSpanContext \<Rightarrow>
          \<lparr>ctxAfter = spanCtx, sets = [], result = Return (Some ErrInvalidSpanContext)\<rparr>
      | SpanContextPtr ctx \<Rightarrow>
          if traceID ctx = 0 \<or> spanID ctx = 0
          then \<lparr>ctxAfter = spanCtx, sets = [], result = Return (Some ErrInvalidSpanContext)\<rparr>
          else
            (let ws =
                   [(TraceHeader cfg, strconv_FormatUint (traceID ctx) 10),
                    (ParentHeader cfg, strconv_FormatUint (spanID ctx) 10)] @
                   (case samplingPriority ctx of
                      (sp, ok) \<Rightarrow> if ok then [(PriorityHeader cfg, strconv_Itoa sp)] else []) @
                   (if origin ctx \<noteq> [] then [(originHeader, origin ctx)] else []) @
                   map (\<lambda>(k, v). (BaggagePrefix cfg @ k, v)) (baggage ctx)
             in if MaxTagsHeaderLen cfg \<le> 0
                then \<lparr>ctxAfter = spanCtx, sets = ws, result = Return None\<rparr>
                else
                  (case marshalPropagatingTags h cfg ctx of
                     (s, ctx') \<Rightarrow>
                       \<lparr>ctxAfter = SpanContextPtr ctx',
                        sets = ws @ (if 0 < length s then [(traceTagsHeader, s)] else []),
                        result = Return None\<rparr>)))"

definition propagator_Inject :: "helpers \<Rightarrow> PropagatorConfig \<Rightarrow> SpanContext \<Rightarrow> carrier \<Rightarrow> injection" where
  "propagator_Inject h cfg spanCtx c =
     (case c of
        TextMap _ \<Rightarrow> propagator_injectTextMap h cfg spanCtx
      | WriterOnly \<Rightarrow> propagator_injectTextMap h cfg spanCtx
      | _ \<Rightarrow> \<lparr>ctxAfter = spanCtx, sets = [], result = Return (Some ErrInvalidCarrier)\<rparr>)"

definition unmarshalPropagatingTags :: "helpers \<Rightarrow> spanContext \<Rightarrow> string \<Rightarrow> spanContext" where
  "unmarshalPropagatingTags h ctx v =
     (let t = (case trace ctx of None \<Rightarrow> newTrace | Some t \<Rightarrow> t) in
      if propagationExtractMaxSize < length v
      then ctx\<lparr>trace := Some (setTag t keyPropagationError ''extract_max_size'')\<rparr>
      else
        (case parsePropagatableTraceTags h v of
           (m, err) \<Rightarrow>
             (let t' = t\<lparr>propagatingTags := m\<rparr> in
              ctx\<lparr>trace :=
                    Some (if err \<noteq> None then setTag t' keyPropagationError ''decoding_error''
                          else t')\<rparr>)))"

text \<open>The handler that \<open>extractTextMap\<close> passes to \<open>ForeachKey\<close>; the cases of its
  \<open>switch\<close> are tried from the top.\<close>

definition propagator_extractHandler ::
  "helpers \<Rightarrow> PropagatorConfig \<Rightarrow> spanContext \<Rightarrow> string \<Rightarrow> string \<Rightarrow> error + spanContext" where
  "propagator_extractHandler h cfg ctx k v =
     (let key = strings_ToLower k in
      if key = TraceHeader cfg then
        (case parseUint64 h v of
           None \<Rightarrow> Inl ErrSpanContextCorrupted
         | Some n \<Rightarrow> Inr (ctx\<lparr>traceID := n\<rparr>))
      else if key = ParentHeader cfg then
        (case parseUint64 h v of
           None \<Rightarrow> Inl ErrSpanContextCorrupted
         | Some n \<Rightarrow> Inr (ctx\<lparr>spanID := n\<rparr>))
      else if key = PriorityHeader cfg then
        (case strconv_Atoi v of
           None \<Rightarrow> Inl ErrSpanContextCorrupted
         | Some p \<Rightarrow> Inr (setSamplingPriority ctx p Unknown))
      else if key = originHeader then Inr (ctx\<lparr>origin := v\<rparr>)
      else if key = traceTagsHeader then Inr (unmarshalPropagatingTags h ctx v)
      else if strings_HasPrefix key (BaggagePrefix cfg)
      then Inr (setBaggageItem ctx (strings_TrimPrefix key (BaggagePrefix cfg)) v)
      else Inr ctx)"

definition propagator_extractTextMap :: "helpers \<Rightarrow> PropagatorConfig \<Rightarrow> (string \<times> string) list \<Rightarrow> extraction" where
  "propagator_extractTextMap h cfg reader =
     (case ForeachKey (propagator_extractHandler h cfg) zeroSpanContext reader of
        Inl err \<Rightarrow> Return (None, Some err)
      | Inr ctx \<Rightarrow>
          if traceID ctx = 0 \<or> (spanID ctx = 0 \<and> origin ctx \<noteq> ''synthetics'')
          then Return (None, Some ErrSpanContextNotFound)
          else Return (Some (SpanContextPtr ctx), None))"

definition propagator_Extract :: "helpers \<Rightarrow> PropagatorConfig \<Rightarrow> carrier \<Rightarrow> extraction" where
  "propagator_Extract h cfg c =
     (case c of
        TextMap reader \<Rightarrow> propagator_extractTextMap h cfg reader
      | ReaderOnly reader \<Rightarrow> propagator_extractTextMap h cfg reader
      | _ \<Rightarrow> Return (None, Some ErrInvalidCarrier))"

subsection \<open>The W3C propagator\<close>

definition traceparentHeader :: string where "traceparentHeader = ''traceparent''"
definition tracestateHeader :: string where "tracestateHeader = ''tracestate''"

text \<open>A Go map read \<open>m[k]\<close>: the empty string for a nil map or a missing key.\<close>

definition tagValue :: "trace \<Rightarrow> string \<Rightarrow> string" where
  "tagValue t k =
     (case propagatingTags t of
        None \<Rightarrow> []
      | Some kvs \<Rightarrow> (case map_of kvs k of None \<Rightarrow> [] | Some v \<Rightarrow> v))"

definition printable :: "char \<Rightarrow> bool" where
  "printable c = (let n = (of_char c :: nat) in 32 \<le> n \<and> n \<le> 126)"

text \<open>\<open>ReplaceAllString(s, "_")\<close> for the two patterns of \<open>composeTracestate\<close>: each of the
  listed bytes, and each maximal run of bytes outside \<open>\x20\<close>-\<open>\x7E\<close>, becomes one
  underscore.\<close>

function regexp_ReplaceAll :: "string \<Rightarrow> string \<Rightarrow> string" where
  "regexp_ReplaceAll seps [] = []"
| "regexp_ReplaceAll seps (c # cs) =
     (if c \<in> set seps then CHR ''_'' # regexp_ReplaceAll seps cs
      else if \<not> printable c
      then CHR ''_'' # regexp_ReplaceAll seps (dropWhile (\<lambda>x. \<not> printable x) cs)
      else c # regexp_ReplaceAll seps cs)"
  by pat_completeness auto
termination
  by (relation "measure (\<lambda>(seps, s). length s)") (auto simp: less_Suc_eq_le length_dropWhile_le)

definition keyRgx :: string where "keyRgx = '',=''"
definition valueRgx :: string where "valueRgx = '',;:''"

definition strings_ReplaceAll :: "string \<Rightarrow> char \<Rightarrow> char \<Rightarrow> string" where
  "strings_ReplaceAll s old new = map (\<lambda>c. if c = old then new else c) s"

definition strings_Count :: "string \<Rightarrow> char \<Rightarrow> nat" where
  "strings_Count s c = length (filter (\<lambda>x. x = c) s)"

text \<open>\<open>strings.LastIndex\<close> for one byte: \<open>None\<close> stands for \<open>-1\<close>.\<close>

fun strings_LastIndex :: "string \<Rightarrow> char \<Rightarrow> nat option" where
  "strings_LastIndex [] c = None"
| "strings_LastIndex (x # xs) c =
     (case strings_LastIndex xs c of
        Some j \<Rightarrow> Some (Suc j)
      | None \<Rightarrow> if x = c then Some 0 else None)"

text \<open>The first piece of \<open>strings.SplitAfterN(s, sep, n)\<close> for \<open>n > 0\<close>: all of \<open>s\<close> when
  \<open>n = 1\<close> or there is no separator, otherwise \<open>s\<close> up to its first separator, included.\<close>

fun upToFirst :: "string \<Rightarrow> char \<Rightarrow> string" where
  "upToFirst [] sep = []"
| "upToFirst (c # cs) sep = (if c = sep then [c] else c # upToFirst cs sep)"

definition strings_SplitAfterN_first :: "string \<Rightarrow> char \<Rightarrow> nat \<Rightarrow> string" where
  "strings_SplitAfterN_first s sep n = (if n = 1 then s else upToFirst s sep)"

text \<open>The first loop of \<open>composeTracestate\<close>: the propagating tags whose key starts with
  \<open>_dd.p.\<close>, until one does not fit.\<close>

fun composeTracestate_tags :: "(string \<times> string) list \<Rightarrow> string \<Rightarrow> nat \<Rightarrow> string \<times> nat" where
  "composeTracestate_tags [] b listLength = (b, listLength)"
| "composeTracestate_tags ((k, v) # kvs) b listLength =
     (if \<not> strings_HasPrefix k ''_dd.p.'' then composeTracestate_tags kvs b listLength
      else
        (let tag = ''t.'' @ regexp_ReplaceAll keyRgx (drop 6 k) @ '':'' @
                   strings_ReplaceAll (regexp_ReplaceAll valueRgx v) (CHR ''='') (CHR ''~'')
         in if length b + length tag \<le> 256 \<and> listLength < 32
            then composeTracestate_tags kvs (b @ '';'' @ tag) (listLength + 1)
            else (b, listLength)))"

text \<open>The second loop: the entries of the other vendors in the old state. An index
  or a slice bound out of range is a panic.\<close>

fun composeTracestate_vendors :: "string list \<Rightarrow> string \<Rightarrow> nat \<Rightarrow> string outcome" where
  "composeTracestate_vendors [] b listLength = Return b"
| "composeTracestate_vendors (s # ss) b listLength =
     (if strings_HasPrefix s ''dd='' then composeTracestate_vendors ss b listLength
      else if length b + length s < 255 then
        (if listLength + strings_Count s (CHR '';'') < 32
         then composeTracestate_vendors ss (b @ '','' @ s) listLength
         else if 32 \<le> listLength
         then Panic ''runtime error: index out of range [0] with length 0''
         else composeTracestate_vendors ss
                (b @ '','' @ strings_SplitAfterN_first s (CHR '';'') (32 - listLength)) listLength)
      else if 255 < length b then Panic ''runtime error: slice bounds out of range''
      else
        (case strings_LastIndex (take (255 - length b) s) (CHR '';'') of
           None \<Rightarrow> Return b
         | Some j \<Rightarrow> Return (b @ take j s)))"

definition composeTracestate :: "spanContext \<Rightarrow> int \<Rightarrow> string \<Rightarrow> string outcome" where
  "composeTracestate ctx priority oldState =
     (let b0 = ''dd=s:'' @ strconv_Itoa priority @ '';'';
          b1 = (if origin ctx \<noteq> [] then b0 @ ''o:'' @ regexp_ReplaceAll valueRgx (origin ctx) else b0);
          n1 = (if origin ctx \<noteq> [] then 2 else 1)
      in case trace ctx of
           None \<Rightarrow> Panic ''runtime error: invalid memory address or nil pointer dereference''
         | Some t \<Rightarrow>
             (case composeTracestate_tags
                     (case propagatingTags t of None \<Rightarrow> [] | Some kvs \<Rightarrow> kvs) b1 n1 of
                (b, listLength) \<Rightarrow>
                  composeTracestate_vendors (strings_Split oldState (CHR '','')) b listLength))"

definition propagatorW3c_injectTextMap :: "SpanContext \<Rightarrow> injection" where
  "propagatorW3c_injectTextMap spanCtx =
     (case spanCtx of
        OtherSpanContext \<Rightarrow>
          \<lparr>ctxAfter = spanCtx, sets = [], result = Return (Some ErrInvalidSpanContext)\<rparr>
      | SpanContextPtr ctx \<Rightarrow>
          if traceID ctx = 0 \<or> spanID ctx = 0
          then \<lparr>ctxAfter = spanCtx, sets = [], result = Return (Some ErrInvalidSpanContext)\<rparr>
          else
            (case samplingPriority ctx of
               (p, ok) \<Rightarrow>
                 (let flags = (if ok \<and> PriorityAutoKeep \<le> p then ''01'' else ''00'');
                      tp = (traceparentHeader,
                            ''00-'' @ fmt_0x 32 (traceID ctx) @ ''-'' @ fmt_0x 16 (spanID ctx) @
                            ''-'' @ flags)
                  in case trace ctx of
                       None \<Rightarrow>
                         \<lparr>ctxAfter = spanCtx, sets = [tp],
                          result = Panic ''runtime error: invalid memory address or nil pointer dereference''\<rparr>
                     | Some t \<Rightarrow>
                         if updated ctx \<or>
                            (propagatingTags t \<noteq> None \<and>
                             \<not> strings_HasPrefix (tagValue t tracestateHeader) ''dd='')
                         then
                           (case composeTracestate ctx p (tagValue t tracestateHeader) of
                              Panic m \<Rightarrow> \<lparr>ctxAfter = spanCtx, sets = [tp], result = Panic m\<rparr>
                            | Return s \<Rightarrow>
                                \<lparr>ctxAfter = spanCtx, sets = [tp, (tracestateHeader, s)],
                                 result = Return None\<rparr>)
                         else
                           \<lparr>ctxAfter = spanCtx,
                            sets = [tp, (tracestateHeader, tagValue t tracestateHeader)],
                            result = Return None\<rparr>)))"

definition propagatorW3c_Inject :: "SpanContext \<Rightarrow> carrier \<Rightarrow> injection" where
  "propagatorW3c_Inject spanCtx c =
     (case c of
        TextMap _ \<Rightarrow> propagatorW3c_injectTextMap spanCtx
      | WriterOnly \<Rightarrow> propagatorW3c_injectTextMap spanCtx
      | _ \<Rightarrow> \<lparr>ctxAfter = spanCtx, sets = [], result = Return (Some ErrInvalidCarrier)\<rparr>)"

text \<open>\<open>propagatorW3c.Extract\<close> is the single statement \<open>panic("implement me")\<close>.\<close>

definition propagatorW3c_Extract :: "carrier \<Rightarrow> extraction" where
  "propagatorW3c_Extract c = Panic ''implement me''"

subsection \<open>The chained propagator\<close>

text \<open>A value of the interface \<open>Propagator\<close>: one of the three propagators of the file,
  or any other implementation, given by what its two methods do.\<close>

datatype Propagator =
    propagator PropagatorConfig
  | propagatorB3
  | propagatorW3c
  | otherPropagator "SpanContext \<Rightarrow> carrier \<Rightarrow> injection" "carrier \<Rightarrow> extraction"

fun Inject :: "helpers \<Rightarrow> Propagator \<Rightarrow> SpanContext \<Rightarrow> carrier \<Rightarrow> injection" where
  "Inject h (propagator cfg) spanCtx c = propagator_Inject h cfg spanCtx c"
| "Inject h propagatorB3 spanCtx c = propagatorB3_Inject spanCtx c"
| "Inject h propagatorW3c spanCtx c = propagatorW3c_Inject spanCtx c"
| "Inject h (otherPropagator injf extf) spanCtx c = injf spanCtx c"

fun Extract :: "helpers \<Rightarrow> Propagator \<Rightarrow> carrier \<Rightarrow> extraction" where
  "Extract h (propagator cfg) c = propagator_Extract h cfg c"
| "Extract h propagatorB3 c = propagatorB3_Extract c"
| "Extract h propagatorW3c c = propagatorW3c_Extract c"
| "Extract h (otherPropagator injf extf) c = extf c"

record chainedPropagator =
  injectors :: "Propagator list"
  extractors :: "Propagator list"

text \<open>The loop of \<open>chainedPropagator.Inject\<close>: every injector works on the same span
  context and the same carrier; the first error (or panic) ends the loop.\<close>

fun chainedPropagator_Inject_loop ::
  "helpers \<Rightarrow> Propagator list \<Rightarrow> SpanContext \<Rightarrow> carrier \<Rightarrow> injection" where
  "chainedPropagator_Inject_loop h [] spanCtx c =
     \<lparr>ctxAfter = spanCtx, sets = [], result = Return None\<rparr>"
| "chainedPropagator_Inject_loop h (v # vs) spanCtx c =
     (let r = Inject h v spanCtx c in
      if result r \<noteq> Return None then r
      else (let r' = chainedPropagator_Inject_loop h vs (ctxAfter r) c in
            r'\<lparr>sets := sets r @ sets r'\<rparr>))"

definition chainedPropagator_Inject ::
  "helpers \<Rightarrow> chainedPropagator \<Rightarrow> SpanContext \<Rightarrow> carrier \<Rightarrow> injection" where
  "chainedPropagator_Inject h p spanCtx c = chainedPropagator_Inject_loop h (injectors p) spanCtx c"

text \<open>The loop of \<open>chainedPropagator.Extract\<close>.\<close>

fun chainedPropagator_Extract_loop :: "helpers \<Rightarrow> Propagator list \<Rightarrow> carrier \<Rightarrow> extraction" where
  "chainedPropagator_Extract_loop h [] c = Return (None, Some ErrSpanContextNotFound)"
| "chainedPropagator_Extract_loop h (v # vs) c =
     (case Extract h v c of
        Panic m \<Rightarrow> Panic m
      | Return (ctx, err) \<Rightarrow>
          if ctx \<noteq> None then Return (ctx, None)
          else if err = Some ErrSpanContextNotFound then chainedPropagator_Extract_loop h vs c
          else Return (None, err))"

definition chainedPropagator_Extract :: "helpers \<Rightarrow> chainedPropagator \<Rightarrow> carrier \<Rightarrow> extraction" where
  "chainedPropagator_Extract h p c = chainedPropagator_Extract_loop h (extractors p) c"

subsection \<open>Choosing the propagators\<close>

definition headerPropagationStyleInject :: string where
  "headerPropagationStyleInject = ''DD_TRACE_PROPAGATION_STYLE_INJECT''"
definition headerPropagationStyleExtract :: string where
  "headerPropagationStyleExtract = ''DD_TRACE_PROPAGATION_STYLE_EXTRACT''"
definition headerPropagationStyle :: string where
  "headerPropagationStyle = ''DD_TRACE_PROPAGATION_STYLE''"
definition headerPropagationStyleInjectDeprecated :: string where
  "headerPropagationStyleInjectDeprecated = ''DD_PROPAGATION_STYLE_INJECT''"
definition headerPropagationStyleExtractDeprecated :: string where
  "headerPropagationStyleExtractDeprecated = ''DD_PROPAGATION_STYLE_EXTRACT''"

text \<open>The loop of \<open>getPropagators\<close> over the tokens of the selector; the token
  \<open>none\<close> and an unrecognized token only log a warning. The environment is the
  function \<open>os.Getenv\<close>, which gives the empty string for a variable that is not
  set.\<close>

fun getPropagators_loop :: "PropagatorConfig \<Rightarrow> string list \<Rightarrow> Propagator list \<Rightarrow> Propagator list" where
  "getPropagators_loop cfg [] list = list"
| "getPropagators_loop cfg (v # vs) list =
     (let t = strings_ToLower v in
      if t = ''datadog'' then getPropagators_loop cfg vs (list @ [propagator cfg])
      else if t = ''b3'' \<or> t = ''b3multi''
      then getPropagators_loop cfg vs (if \<not> B3 cfg then list @ [propagatorB3] else list)
      else if t = ''none'' then getPropagators_loop cfg vs list
      else getPropagators_loop cfg vs list)"

definition getPropagators :: "(string \<Rightarrow> string) \<Rightarrow> PropagatorConfig \<Rightarrow> string \<Rightarrow> Propagator list" where
  "getPropagators getenv cfg ps0 =
     (let defaultPs = [propagator cfg] @ (if B3 cfg then [propagatorB3] else []) in
      if ps0 = [] \<and> getenv headerPropagationStyle = [] then defaultPs
      else
        (let ps = (if ps0 = [] then getenv headerPropagationStyle else ps0) in
         if ps = ''none'' then []
         else
           (let list = getPropagators_loop cfg (strings_Split ps (CHR '',''))
                         (if B3 cfg then [propagatorB3] else [])
            in if length list = 0 then defaultPs else list)))"

definition NewPropagator ::
  "(string \<Rightarrow> string) \<Rightarrow> PropagatorConfig option \<Rightarrow> Propagator list \<Rightarrow> chainedPropagator" where
  "NewPropagator getenv cfg0 propagators =
     (let cfg1 = (case cfg0 of
                    None \<Rightarrow> \<lparr>BaggagePrefix = [], TraceHeader = [], ParentHeader = [],
                             PriorityHeader = [], MaxTagsHeaderLen = 0, B3 = False\<rparr>
                  | Some c \<Rightarrow> c);
          cfg2 = (if BaggagePrefix cfg1 = [] then cfg1\<lparr>BaggagePrefix := DefaultBaggageHeaderPrefix\<rparr> else cfg1);
          cfg3 = (if TraceHeader cfg2 = [] then cfg2\<lparr>TraceHeader := DefaultTraceIDHeader\<rparr> else cfg2);
          cfg4 = (if ParentHeader cfg3 = [] then cfg3\<lparr>ParentHeader := DefaultParentIDHeader\<rparr> else cfg3);
          cfg = (if PriorityHeader cfg4 = [] then cfg4\<lparr>PriorityHeader := DefaultPriorityHeader\<rparr> else cfg4)
      in if 0 < length propagators
         then \<lparr>injectors = propagators, extractors = propagators\<rparr>
         else
           (let injectorsPs =
                  (if getenv headerPropagationStyleInject = []
                   then getenv headerPropagationStyleInjectDeprecated
                   else getenv headerPropagationStyleInject);
                extractorsPs =
                  (if getenv headerPropagationStyleExtract = []
                   then getenv headerPropagationStyleExtractDeprecated
                   else getenv headerPropagationStyleExtract)
            in \<lparr>injectors = getPropagators getenv cfg injectorsPs,
                extractors = getPropagators getenv cfg extractorsPs\<rparr>))"

subsection \<open>Helpers modelled from the specification\<close>

text \<open>Modelled from the spec: \<open>parseUint64\<close> is declared in another file of the package. Trace
  and span ids are 64-bit unsigned integers written as decimal integers, and a value
  that is not numeric is a decode error.\<close>

definition parseUint64_spec :: "string \<Rightarrow> 64 word option" where
  "parseUint64_spec v = strconv_ParseUint v 10"

text \<open>Modelled from the spec: \<open>isValidPropagatableTag\<close> is declared in another file of
  the package. A pair fails the check when it holds a control character or a character the
  encoding does not allow (here: anything but printable ASCII, and the two separators
  of the encoding).\<close>

definition isValidPropagatableTag_spec :: "string \<Rightarrow> string \<Rightarrow> bool" where
  "isValidPropagatableTag_spec k v =
     list_all (\<lambda>c. printable c \<and> c \<noteq> CHR '','' \<and> c \<noteq> CHR ''='') (k @ v)"

text \<open>Modelled from the spec: \<open>parsePropagatableTraceTags\<close> is declared in another
  file of the package. It parses comma-separated \<open>key=value\<close> pairs; input that is
  not of this form is an error.\<close>

fun cutAtEq :: "string \<Rightarrow> (string \<times> string) option" where
  "cutAtEq [] = None"
| "cutAtEq (c # cs) =
     (if c = CHR ''='' then Some ([], cs)
      else (case cutAtEq cs of None \<Rightarrow> None | Some (k, v) \<Rightarrow> Some (c # k, v)))"

definition parsePropagatableTraceTags_spec :: "string \<Rightarrow> (string \<times> string) list option \<times> error option" where
  "parsePropagatableTraceTags_spec v =
     (let ps = map cutAtEq (strings_Split v (CHR '','')) in
      if list_all (\<lambda>p. p \<noteq> None) ps then (Some (List.map_filter id ps), None)
      else (None, Some (OtherError ''invalid format'')))"

definition specHelpers :: helpers where
  "specHelpers =
     \<lparr>parseUint64 = parseUint64_spec,
      isValidPropagatableTag = isValidPropagatableTag_spec,
      parsePropagatableTraceTags = parsePropagatableTraceTags_spec\<rparr>"

text \<open>The configuration that \<open>NewPropagator\<close> works with when it is given a nil
  configuration: the default header names, no tags header, no B3.\<close>

definition nilConfig :: PropagatorConfig where
  "nilConfig =
     \<lparr>BaggagePrefix = DefaultBaggageHeaderPrefix, TraceHeader = DefaultTraceIDHeader,
      ParentHeader = DefaultParentIDHeader, PriorityHeader = DefaultPriorityHeader,
      MaxTagsHeaderLen = 0, B3 = False\<rparr>"

text \<open>The value of the last pair of a reader whose lower-cased key satisfies a
  predicate: what a handler that overwrites a field at each such pair ends with. It
  serves to state what an extraction reads.\<close>

fun lastValue :: "(string \<Rightarrow> bool) \<Rightarrow> (string \<times> string) list \<Rightarrow> string option" where
  "lastValue P [] = None"
| "lastValue P ((k, v) # kvs) =
     (case lastValue P kvs of
        Some w \<Rightarrow> Some w
      | None \<Rightarrow> if P (strings_ToLower k) then Some v else None)"

section \<open>Properties\<close>

subsection \<open>Hexadecimal formatting and parsing\<close>

lemma digitVal_digitChar: "d < 16 \<Longrightarrow> digitVal (digitChar d) = Some d"
proof -
  assume "d < 16"
  then have "d \<in> set [0..<16]" by simp
  then show ?thesis
    by (auto simp add: upt_rec digitVal_def digitChar_def)
qed

lemma digitChar_hex: "d < 16 \<Longrightarrow> digitChar d \<in> set ''0123456789abcdef''"
proof -
  assume "d < 16"
  then have "d \<in> set [0..<16]" by simp
  then show ?thesis
    by (auto simp add: upt_rec digitChar_def)
qed

lemma parseDigits_append:
  "parseDigits base n (xs @ ys) =
     (case parseDigits base n xs of None \<Rightarrow> None | Some m \<Rightarrow> parseDigits base m ys)"
  by (induction xs arbitrary: n) (auto split: option.splits)

lemma parseDigits_formatBase:
  "parseDigits 16 a (formatBase 16 n) = Some (a * 16 ^ length (formatBase 16 n) + n)"
proof (induction n arbitrary: a rule: less_induct)
  case (less n)
  show ?case
  proof (cases "n < 16")
    case True
    then show ?thesis by (simp add: formatBase.simps[of 16 n] digitVal_digitChar)
  next
    case False
    then have lt: "n div 16 < n" by simp
    have md: "n mod 16 < 16" by simp
    show ?thesis using False
      apply (subst formatBase.simps)
      apply (subst (2) formatBase.simps)
      apply (simp add: parseDigits_append less.IH[OF lt] digitVal_digitChar[OF md])
      done
  qed
qed

lemma formatBase_16_length: "0 < k \<Longrightarrow> n < 16 ^ k \<Longrightarrow> length (formatBase 16 n) \<le> k"
proof (induction k arbitrary: n)
  case 0
  then show ?case by simp
next
  case (Suc k)
  show ?case
  proof (cases "n < 16")
    case True
    then show ?thesis by (simp add: formatBase.simps)
  next
    case False
    then have k: "0 < k" using Suc.prems by (cases k) auto
    have "n div 16 < 16 ^ k"
      using Suc.prems by (simp add: less_mult_imp_div_less mult.commute)
    from Suc.IH[OF k this] False show ?thesis
      by (subst formatBase.simps) simp
  qed
qed

lemma formatBase_16_chars: "set (formatBase 16 n) \<subseteq> set ''0123456789abcdef''"
proof (induction n rule: less_induct)
  case (less n)
  show ?case
  proof (cases "n < 16")
    case True
    then show ?thesis
      using digitChar_hex[OF True] by (simp add: formatBase.simps[of 16 n])
  next
    case False
    then have lt: "n div 16 < n" by simp
    have md: "n mod 16 < 16" by simp
    show ?thesis
      using False less.IH[OF lt] digitChar_hex[OF md]
      by (subst formatBase.simps) simp
  qed
qed

lemma parseDigits_zeros:
  "parseDigits 16 0 (replicate k (CHR ''0'') @ s) = parseDigits 16 0 s"
  by (induction k) (simp_all add: digitVal_def)

lemma unat_lt_16_16: "unat (w :: 64 word) < 16 ^ 16"
proof -
  have "unat w < 2 ^ 64" using unsigned_less[of w] by simp
  then show ?thesis by simp
qed

lemma fmt_0x_16_length: "length (fmt_0x 16 w) = 16"
  using formatBase_16_length[OF _ unat_lt_16_16, of w]
  by (simp add: fmt_0x_def Let_def)

lemma fmt_0x_16_chars: "set (fmt_0x 16 w) \<subseteq> set ''0123456789abcdef''"
  using formatBase_16_chars[of "unat w"]
  by (auto simp add: fmt_0x_def Let_def)

lemma fmt_0x_16_parse: "strconv_ParseUint (fmt_0x 16 w) 16 = Some w"
proof -
  have ne: "fmt_0x 16 w \<noteq> []" using fmt_0x_16_length[of w] by auto
  have "parseDigits 16 0 (fmt_0x 16 w) = Some (unat w)"
    by (simp add: fmt_0x_def Let_def parseDigits_zeros parseDigits_formatBase)
  moreover have "unat w < 2 ^ 64" using unsigned_less[of w] by simp
  ultimately show ?thesis using ne by (simp add: strconv_ParseUint_def)
qed

lemma fmt_0x_16_42: "fmt_0x 16 42 = ''000000000000002a''"
  by code_simp

lemma fmt_0x_16_52: "fmt_0x 16 52 = ''0000000000000034''"
  by code_simp

subsection \<open>B3 injection\<close>

text \<open>
  Claim C8. Injecting the span context with trace id 42, span id 52 and sampling
  priority 1 in the B3 format makes exactly the three \<open>Set\<close> calls
  \<open>x-b3-traceid = 000000000000002a\<close>, \<open>x-b3-spanid = 0000000000000034\<close> and
  \<open>x-b3-sampled = 1\<close>, which leave an empty \<open>TextMapCarrier\<close> with exactly these
  three entries. In general, for a context with both ids non-zero, the
  injection sets the two id headers to the ids formatted with \<open>%016x\<close>, then sets
  \<open>x-b3-sampled\<close> to \<open>1\<close> when a priority is present and at least \<open>PriorityAutoKeep\<close>,
  to \<open>0\<close> when it is present and below, and not at all when there is none; it returns
  nil. The formatted id has exactly 16 characters, all of them lower-case hexadecimal
  digits, and reads back as the id.
\<close>

theorem propagatorB3_injectTextMap_writes:
  "sets (propagatorB3_injectTextMap
           (SpanContextPtr (zeroSpanContext\<lparr>traceID := 42, spanID := 52, prio := Some (1, sampler)\<rparr>))) =
     [(''x-b3-traceid'', ''000000000000002a''), (''x-b3-spanid'', ''0000000000000034''),
      (''x-b3-sampled'', ''1'')] \<and>
   TextMapCarrier_Sets Map.empty
     (sets (propagatorB3_injectTextMap
              (SpanContextPtr (zeroSpanContext\<lparr>traceID := 42, spanID := 52, prio := Some (1, sampler)\<rparr>)))) =
     [''x-b3-traceid'' \<mapsto> ''000000000000002a'', ''x-b3-spanid'' \<mapsto> ''0000000000000034'',
      ''x-b3-sampled'' \<mapsto> ''1''] \<and>
   (traceID ctx \<noteq> 0 \<and> spanID ctx \<noteq> 0 \<longrightarrow>
      propagatorB3_injectTextMap (SpanContextPtr ctx) =
        \<lparr>ctxAfter = SpanContextPtr ctx,
         sets = [(''x-b3-traceid'', fmt_0x 16 (traceID ctx)), (''x-b3-spanid'', fmt_0x 16 (spanID ctx))] @
                (case prio ctx of
                   None \<Rightarrow> []
                 | Some (p, s) \<Rightarrow> [(''x-b3-sampled'', if PriorityAutoKeep \<le> p then ''1'' else ''0'')]),
         result = Return None\<rparr>) \<and>
   length (fmt_0x 16 w) = 16 \<and>
   set (fmt_0x 16 w) \<subseteq> set ''0123456789abcdef'' \<and>
   strconv_ParseUint (fmt_0x 16 w) 16 = Some w"
proof -
  have scenario:
    "sets (propagatorB3_injectTextMap
             (SpanContextPtr (zeroSpanContext\<lparr>traceID := 42, spanID := 52, prio := Some (1, sampler)\<rparr>))) =
       [(''x-b3-traceid'', ''000000000000002a''), (''x-b3-spanid'', ''0000000000000034''),
        (''x-b3-sampled'', ''1'')]"
    by (simp add: propagatorB3_injectTextMap_def zeroSpanContext_def samplingPriority_def
        PriorityAutoKeep_def b3TraceIDHeader_def b3SpanIDHeader_def b3SampledHeader_def
        fmt_0x_16_42 fmt_0x_16_52)
  have general:
    "traceID ctx \<noteq> 0 \<and> spanID ctx \<noteq> 0 \<longrightarrow>
       propagatorB3_injectTextMap (SpanContextPtr ctx) =
         \<lparr>ctxAfter = SpanContextPtr ctx,
          sets = [(''x-b3-traceid'', fmt_0x 16 (traceID ctx)), (''x-b3-spanid'', fmt_0x 16 (spanID ctx))] @
                 (case prio ctx of
                    None \<Rightarrow> []
                  | Some (p, s) \<Rightarrow> [(''x-b3-sampled'', if PriorityAutoKeep \<le> p then ''1'' else ''0'')]),
          result = Return None\<rparr>"
    by (simp add: propagatorB3_injectTextMap_def samplingPriority_def
        b3TraceIDHeader_def b3SpanIDHeader_def b3SampledHeader_def split: option.splits)
  have carrier:
    "TextMapCarrier_Sets Map.empty
       (sets (propagatorB3_injectTextMap
                (SpanContextPtr (zeroSpanContext\<lparr>traceID := 42, spanID := 52, prio := Some (1, sampler)\<rparr>)))) =
       [''x-b3-traceid'' \<mapsto> ''000000000000002a'', ''x-b3-spanid'' \<mapsto> ''0000000000000034'',
        ''x-b3-sampled'' \<mapsto> ''1'']"
    unfolding scenario by (simp add: TextMapCarrier_Set_def)
  show ?thesis
    using scenario carrier general fmt_0x_16_length fmt_0x_16_chars fmt_0x_16_parse by blast
qed

theorem propagatorB3_injectTextMap_writes_witness:
  "traceID (zeroSpanContext\<lparr>traceID := 7, spanID := 9, prio := Some (0, Unknown)\<rparr>) \<noteq> 0 \<and>
   spanID (zeroSpanContext\<lparr>traceID := 7, spanID := 9, prio := Some (0, Unknown)\<rparr>) \<noteq> 0 \<and>
   sets (propagatorB3_injectTextMap
           (SpanContextPtr (zeroSpanContext\<lparr>traceID := 7, spanID := 9, prio := Some (0, Unknown)\<rparr>))) =
     [(''x-b3-traceid'', fmt_0x 16 7), (''x-b3-spanid'', fmt_0x 16 9), (''x-b3-sampled'', ''0'')]"
  using propagatorB3_injectTextMap_writes
          [of Unknown "zeroSpanContext\<lparr>traceID := 7, spanID := 9, prio := Some (0, Unknown)\<rparr>" 0]
  by (simp add: zeroSpanContext_def PriorityAutoKeep_def)

subsection \<open>Injection of an invalid span context\<close>

text \<open>
  Claim C4. For a span context whose trace id is 0 or whose span id is 0,
  \<open>injectTextMap\<close> of each of the three formats (first-party, B3, W3C), and so
  \<open>Inject\<close> of each format on a text-map carrier, returns \<open>ErrInvalidSpanContext\<close>
  and makes no \<open>Set\<close> call on the writer, so that a \<open>TextMapCarrier\<close> is left as it
  was.
\<close>

theorem injectTextMap_invalid_context:
  "traceID ctx = 0 \<or> spanID ctx = 0 \<Longrightarrow>
     propagator_injectTextMap h cfg (SpanContextPtr ctx) =
       \<lparr>ctxAfter = SpanContextPtr ctx, sets = [], result = Return (Some ErrInvalidSpanContext)\<rparr> \<and>
     propagatorB3_injectTextMap (SpanContextPtr ctx) =
       \<lparr>ctxAfter = SpanContextPtr ctx, sets = [], result = Return (Some ErrInvalidSpanContext)\<rparr> \<and>
     propagatorW3c_injectTextMap (SpanContextPtr ctx) =
       \<lparr>ctxAfter = SpanContextPtr ctx, sets = [], result = Return (Some ErrInvalidSpanContext)\<rparr> \<and>
     Inject h (propagator cfg) (SpanContextPtr ctx) (TextMap kvs) =
       \<lparr>ctxAfter = SpanContextPtr ctx, sets = [], result = Return (Some ErrInvalidSpanContext)\<rparr> \<and>
     Inject h propagatorB3 (SpanContextPtr ctx) (TextMap kvs) =
       \<lparr>ctxAfter = SpanContextPtr ctx, sets = [], result = Return (Some ErrInvalidSpanContext)\<rparr> \<and>
     Inject h propagatorW3c (SpanContextPtr ctx) (TextMap kvs) =
       \<lparr>ctxAfter = SpanContextPtr ctx, sets = [], result = Return (Some ErrInvalidSpanContext)\<rparr> \<and>
     TextMapCarrier_Sets c (sets (propagator_injectTextMap h cfg (SpanContextPtr ctx))) = c \<and>
     TextMapCarrier_Sets c (sets (propagatorB3_injectTextMap (SpanContextPtr ctx))) = c \<and>
     TextMapCarrier_Sets c (sets (propagatorW3c_injectTextMap (SpanContextPtr ctx))) = c"
  by (auto simp add: propagator_injectTextMap_def propagatorB3_injectTextMap_def
      propagatorW3c_injectTextMap_def propagator_Inject_def propagatorB3_Inject_def
      propagatorW3c_Inject_def)

theorem injectTextMap_invalid_context_witness:
  "(traceID (zeroSpanContext\<lparr>spanID := 52\<rparr>) = 0 \<or> spanID (zeroSpanContext\<lparr>spanID := 52\<rparr>) = 0) \<and>
   result (propagator_injectTextMap specHelpers nilConfig (SpanContextPtr (zeroSpanContext\<lparr>spanID := 52\<rparr>))) =
     Return (Some ErrInvalidSpanContext) \<and>
   sets (propagatorB3_injectTextMap (SpanContextPtr (zeroSpanContext\<lparr>spanID := 52\<rparr>))) = [] \<and>
   sets (propagatorW3c_injectTextMap (SpanContextPtr (zeroSpanContext\<lparr>spanID := 52\<rparr>))) = [] \<and>
   TextMapCarrier_Sets Map.empty
     (sets (propagator_injectTextMap specHelpers nilConfig (SpanContextPtr (zeroSpanContext\<lparr>spanID := 52\<rparr>)))) =
     Map.empty"
proof -
  have z: "traceID (zeroSpanContext\<lparr>spanID := 52\<rparr>) = 0 \<or> spanID (zeroSpanContext\<lparr>spanID := 52\<rparr>) = 0"
    by (simp add: zeroSpanContext_def)
  show ?thesis
    using z injectTextMap_invalid_context
              [OF z, where h = specHelpers and cfg = nilConfig and c = Map.empty]
    by simp
qed

subsection \<open>W3C extraction\<close>

text \<open>
  Claim C2, as the code has it. For every carrier, \<open>Extract\<close> of the W3C propagator
  panics with the message \<open>implement me\<close>: it returns neither a context nor an error
  value, also when called through the \<open>Propagator\<close> interface, and a chained
  propagator whose first extractor is the W3C propagator panics likewise.
\<close>

theorem propagatorW3c_Extract_panics:
  "propagatorW3c_Extract c = Panic ''implement me'' \<and>
   Extract h propagatorW3c c = Panic ''implement me'' \<and>
   propagatorW3c_Extract c \<noteq> Return r \<and>
   chainedPropagator_Extract h \<lparr>injectors = ps, extractors = propagatorW3c # es\<rparr> c =
     Panic ''implement me''"
  by (simp add: propagatorW3c_Extract_def chainedPropagator_Extract_def)

text \<open>The claim as the specification states it (an error value is returned) fails on a
  carrier with a \<open>traceparent\<close> header.\<close>

theorem propagatorW3c_Extract_panics_counterexample:
  "propagatorW3c_Extract
     (TextMap [(''traceparent'', ''00-0000000000000000000000000000002a-0000000000000034-01'')]) =
   Panic ''implement me''"
  by (simp add: propagatorW3c_Extract_def)

subsection \<open>Chained extraction\<close>

lemma chainedPropagator_Extract_loop_skip:
  "list_all (\<lambda>p. Extract h p c = Return (None, Some ErrSpanContextNotFound)) pre \<Longrightarrow>
   chainedPropagator_Extract_loop h (pre @ rest) c = chainedPropagator_Extract_loop h rest c"
  by (induction pre) simp_all

lemma propagatorB3_extractHandler_other:
  "strings_ToLower k \<notin> {b3TraceIDHeader, b3SpanIDHeader, b3SampledHeader} \<Longrightarrow>
   propagatorB3_extractHandler s k v = Inr s"
  by (simp add: propagatorB3_extractHandler_def Let_def)

lemma ForeachKey_B3_no_headers:
  "list_all (\<lambda>(k, v). strings_ToLower k \<notin> {b3TraceIDHeader, b3SpanIDHeader, b3SampledHeader}) reader \<Longrightarrow>
   ForeachKey propagatorB3_extractHandler s reader = Inr s"
  by (induction reader) (auto simp add: propagatorB3_extractHandler_other)

lemma propagatorB3_extractTextMap_no_headers:
  "list_all (\<lambda>(k, v). strings_ToLower k \<notin> {b3TraceIDHeader, b3SpanIDHeader, b3SampledHeader}) reader \<Longrightarrow>
   propagatorB3_extractTextMap reader = Return (None, Some ErrSpanContextNotFound)"
  by (simp add: propagatorB3_extractTextMap_def ForeachKey_B3_no_headers zeroSpanContext_def)

lemma propagator_extractTextMap_cases:
  "(\<exists>ctx. propagator_extractTextMap h cfg reader = Return (Some ctx, None)) \<or>
   (\<exists>e. propagator_extractTextMap h cfg reader = Return (None, Some e))"
  by (simp add: propagator_extractTextMap_def split: sum.splits)

lemma lower_trace: "strings_ToLower ''x-datadog-trace-id'' = ''x-datadog-trace-id''"
  by (simp add: strings_ToLower_def toLowerByte_def char_of_eq_iff)
lemma lower_parent: "strings_ToLower ''x-datadog-parent-id'' = ''x-datadog-parent-id''"
  by (simp add: strings_ToLower_def toLowerByte_def char_of_eq_iff)
lemma lower_origin: "strings_ToLower ''x-datadog-origin'' = ''x-datadog-origin''"
  by (simp add: strings_ToLower_def toLowerByte_def char_of_eq_iff)
lemma lower_mixed: "strings_ToLower ''X-Datadog-Trace-ID'' = ''x-datadog-trace-id''"
  by (simp add: strings_ToLower_def toLowerByte_def char_of_eq_iff)
lemma parse42: "parseUint64_spec ''42'' = Some 42"
  by (simp add: parseUint64_spec_def strconv_ParseUint_def digitVal_def)
lemma parse52: "parseUint64_spec ''52'' = Some 52"
  by (simp add: parseUint64_spec_def strconv_ParseUint_def digitVal_def)
lemma parse4x: "parseUint64_spec ''4x'' = None"
  by (simp add: parseUint64_spec_def strconv_ParseUint_def digitVal_def)

lemma extract_first_party_42_52:
  "propagator_extractTextMap specHelpers nilConfig
     [(''x-datadog-trace-id'', ''42''), (''x-datadog-parent-id'', ''52'')] =
   Return (Some (SpanContextPtr (zeroSpanContext\<lparr>traceID := 42, spanID := 52\<rparr>)), None)"
  by (simp add: propagator_extractTextMap_def propagator_extractHandler_def nilConfig_def
      specHelpers_def lower_trace lower_parent parse42 parse52 zeroSpanContext_def
      DefaultTraceIDHeader_def DefaultParentIDHeader_def)

lemma extract_first_party_corrupted:
  "propagator_extractTextMap specHelpers nilConfig [(''x-datadog-trace-id'', ''4x'')] =
   Return (None, Some ErrSpanContextCorrupted)"
  by (simp add: propagator_extractTextMap_def propagator_extractHandler_def nilConfig_def
      specHelpers_def lower_trace parse4x
      DefaultTraceIDHeader_def DefaultParentIDHeader_def)

lemma b3_nothing: "propagatorB3_extractTextMap [] = Return (None, Some ErrSpanContextNotFound)"
  by (simp add: propagatorB3_extractTextMap_def zeroSpanContext_def)

text \<open>
  Claim C1. The chained \<open>Extract\<close> tries the extractors in list order. When the
  extractors before \<open>v\<close> all return the not-found error and \<open>v\<close> returns a non-nil
  context, the chain returns that context with a nil error, whatever follows \<open>v\<close>;
  when \<open>v\<close> returns no context and something other than the not-found error, the
  chain returns that at once; when every extractor returns the not-found error, so
  does the chain. In particular, with the extractors B3 and first-party, on a carrier
  none of whose keys is a B3 header, the chain returns what the first-party extraction
  returns.
\<close>

theorem chainedPropagator_Extract_order:
  "(list_all (\<lambda>p. Extract h p c = Return (None, Some ErrSpanContextNotFound)) pre \<and>
    Extract h v c = Return (Some ctx, err) \<longrightarrow>
      chainedPropagator_Extract h \<lparr>injectors = ps, extractors = pre @ v # post\<rparr> c =
        Return (Some ctx, None)) \<and>
   (list_all (\<lambda>p. Extract h p c = Return (None, Some ErrSpanContextNotFound)) pre \<and>
    Extract h v c = Return (None, err) \<and> err \<noteq> Some ErrSpanContextNotFound \<longrightarrow>
      chainedPropagator_Extract h \<lparr>injectors = ps, extractors = pre @ v # post\<rparr> c =
        Return (None, err)) \<and>
   (list_all (\<lambda>p. Extract h p c = Return (None, Some ErrSpanContextNotFound)) es \<longrightarrow>
      chainedPropagator_Extract h \<lparr>injectors = ps, extractors = es\<rparr> c =
        Return (None, Some ErrSpanContextNotFound)) \<and>
   (list_all (\<lambda>(k, v). strings_ToLower k \<notin> {b3TraceIDHeader, b3SpanIDHeader, b3SampledHeader}) reader \<longrightarrow>
      chainedPropagator_Extract h \<lparr>injectors = ps, extractors = [propagatorB3, propagator cfg]\<rparr>
        (TextMap reader) = propagator_extractTextMap h cfg reader)"
proof (intro conjI impI)
  assume a: "list_all (\<lambda>p. Extract h p c = Return (None, Some ErrSpanContextNotFound)) pre \<and>
    Extract h v c = Return (Some ctx, err)"
  then show "chainedPropagator_Extract h \<lparr>injectors = ps, extractors = pre @ v # post\<rparr> c =
        Return (Some ctx, None)"
    by (simp add: chainedPropagator_Extract_def chainedPropagator_Extract_loop_skip)
next
  assume a: "list_all (\<lambda>p. Extract h p c = Return (None, Some ErrSpanContextNotFound)) pre \<and>
    Extract h v c = Return (None, err) \<and> err \<noteq> Some ErrSpanContextNotFound"
  then show "chainedPropagator_Extract h \<lparr>injectors = ps, extractors = pre @ v # post\<rparr> c =
        Return (None, err)"
    by (simp add: chainedPropagator_Extract_def chainedPropagator_Extract_loop_skip)
next
  assume a: "list_all (\<lambda>p. Extract h p c = Return (None, Some ErrSpanContextNotFound)) es"
  show "chainedPropagator_Extract h \<lparr>injectors = ps, extractors = es\<rparr> c =
        Return (None, Some ErrSpanContextNotFound)"
    using chainedPropagator_Extract_loop_skip[OF a, of "[]"]
    by (simp add: chainedPropagator_Extract_def)
next
  assume a: "list_all (\<lambda>(k, v). strings_ToLower k \<notin> {b3TraceIDHeader, b3SpanIDHeader, b3SampledHeader}) reader"
  show "chainedPropagator_Extract h \<lparr>injectors = ps, extractors = [propagatorB3, propagator cfg]\<rparr>
        (TextMap reader) = propagator_extractTextMap h cfg reader"
    using propagator_extractTextMap_cases[of h cfg reader]
    by (auto simp add: chainedPropagator_Extract_def propagatorB3_Extract_def
        propagatorB3_extractTextMap_no_headers[OF a] propagator_Extract_def)
qed

theorem chainedPropagator_Extract_order_witness:
  "chainedPropagator_Extract specHelpers
     \<lparr>injectors = [], extractors = [propagatorB3, propagator nilConfig]\<rparr>
     (TextMap [(''x-datadog-trace-id'', ''42''), (''x-datadog-parent-id'', ''52'')]) =
     Return (Some (SpanContextPtr (zeroSpanContext\<lparr>traceID := 42, spanID := 52\<rparr>)), None) \<and>
   chainedPropagator_Extract specHelpers
     \<lparr>injectors = [], extractors = [propagatorB3] @ propagator nilConfig # [propagatorW3c]\<rparr>
     (TextMap [(''x-datadog-trace-id'', ''42''), (''x-datadog-parent-id'', ''52'')]) =
     Return (Some (SpanContextPtr (zeroSpanContext\<lparr>traceID := 42, spanID := 52\<rparr>)), None) \<and>
   chainedPropagator_Extract specHelpers
     \<lparr>injectors = [], extractors = [propagatorB3] @ propagator nilConfig # [propagatorW3c]\<rparr>
     (TextMap [(''x-datadog-trace-id'', ''4x'')]) =
     Return (None, Some ErrSpanContextCorrupted) \<and>
   chainedPropagator_Extract specHelpers
     \<lparr>injectors = [], extractors = [propagatorB3, propagatorB3]\<rparr> (TextMap []) =
     Return (None, Some ErrSpanContextNotFound)"
proof -
  let ?c = "TextMap [(''x-datadog-trace-id'', ''42''), (''x-datadog-parent-id'', ''52'')]"
  let ?ctx = "SpanContextPtr (zeroSpanContext\<lparr>traceID := 42, spanID := 52\<rparr>)"
  note ord = chainedPropagator_Extract_order
  have noB3: "list_all (\<lambda>(k, v). strings_ToLower k \<notin> {b3TraceIDHeader, b3SpanIDHeader, b3SampledHeader})
                [(''x-datadog-trace-id'', ''42''), (''x-datadog-parent-id'', ''52'')]"
    by (simp add: lower_trace lower_parent b3TraceIDHeader_def b3SpanIDHeader_def b3SampledHeader_def)
  have b3: "Extract specHelpers propagatorB3 ?c = Return (None, Some ErrSpanContextNotFound)"
    by (simp add: propagatorB3_Extract_def propagatorB3_extractTextMap_no_headers[OF noB3])
  have dd: "Extract specHelpers (propagator nilConfig) ?c = Return (Some ?ctx, None)"
    by (simp add: propagator_Extract_def extract_first_party_42_52)
  have pre: "list_all (\<lambda>p. Extract specHelpers p ?c = Return (None, Some ErrSpanContextNotFound)) [propagatorB3]"
    using b3 by simp
  have one: "chainedPropagator_Extract specHelpers
       \<lparr>injectors = [], extractors = [propagatorB3, propagator nilConfig]\<rparr> ?c = Return (Some ?ctx, None)"
    using ord [where h = specHelpers and cfg = nilConfig and ps = "[]"
                  and reader = "[(''x-datadog-trace-id'', ''42''), (''x-datadog-parent-id'', ''52'')]"]
      noB3 extract_first_party_42_52
    by simp
  have two: "chainedPropagator_Extract specHelpers
       \<lparr>injectors = [], extractors = [propagatorB3] @ propagator nilConfig # [propagatorW3c]\<rparr> ?c =
       Return (Some ?ctx, None)"
    using ord [where h = specHelpers and c = ?c and pre = "[propagatorB3]" and v = "propagator nilConfig"
                  and ctx = ?ctx and err = None and ps = "[]" and post = "[propagatorW3c]"]
      pre dd
    by blast
  let ?c' = "TextMap [(''x-datadog-trace-id'', ''4x'')]"
  have noB3': "list_all (\<lambda>(k, v). strings_ToLower k \<notin> {b3TraceIDHeader, b3SpanIDHeader, b3SampledHeader})
                [(''x-datadog-trace-id'', ''4x'')]"
    by (simp add: lower_trace b3TraceIDHeader_def b3SpanIDHeader_def b3SampledHeader_def)
  have pre': "list_all (\<lambda>p. Extract specHelpers p ?c' = Return (None, Some ErrSpanContextNotFound)) [propagatorB3]"
    by (simp add: propagatorB3_Extract_def propagatorB3_extractTextMap_no_headers[OF noB3'])
  have dd': "Extract specHelpers (propagator nilConfig) ?c' = Return (None, Some ErrSpanContextCorrupted)"
    by (simp add: propagator_Extract_def extract_first_party_corrupted)
  have three: "chainedPropagator_Extract specHelpers
       \<lparr>injectors = [], extractors = [propagatorB3] @ propagator nilConfig # [propagatorW3c]\<rparr> ?c' =
       Return (None, Some ErrSpanContextCorrupted)"
    using ord [where h = specHelpers and c = ?c' and pre = "[propagatorB3]" and v = "propagator nilConfig"
                  and err = "Some ErrSpanContextCorrupted" and ps = "[]" and post = "[propagatorW3c]"]
      pre' dd'
    by simp
  have all: "list_all (\<lambda>p. Extract specHelpers p (TextMap []) = Return (None, Some ErrSpanContextNotFound))
               [propagatorB3, propagatorB3]"
    by (simp add: propagatorB3_Extract_def b3_nothing)
  have four: "chainedPropagator_Extract specHelpers
       \<lparr>injectors = [], extractors = [propagatorB3, propagatorB3]\<rparr> (TextMap []) =
       Return (None, Some ErrSpanContextNotFound)"
    using ord [where h = specHelpers and c = "TextMap []" and ps = "[]"
                  and es = "[propagatorB3, propagatorB3]"] all
    by blast
  show ?thesis using one two three four by blast
qed

subsection \<open>First-party extraction\<close>

lemma ForeachKey_snoc:
  "ForeachKey f s (xs @ [(k, v)]) =
     (case ForeachKey f s xs of Inl e \<Rightarrow> Inl e | Inr s' \<Rightarrow> f s' k v)"
  by (induction xs arbitrary: s) (auto split: sum.splits)

lemma lastValue_snoc:
  "lastValue P (xs @ [(k, v)]) = (if P (strings_ToLower k) then Some v else lastValue P xs)"
  by (induction xs) (auto split: option.splits)

lemma propagator_extractHandler_traceID:
  "propagator_extractHandler h cfg s k v = Inr s' \<Longrightarrow>
   (if strings_ToLower k = TraceHeader cfg then parseUint64 h v = Some (traceID s')
    else traceID s' = traceID s)"
  by (auto simp add: propagator_extractHandler_def Let_def setSamplingPriority_def
      unmarshalPropagatingTags_def setBaggageItem_def split: if_splits option.splits prod.splits)

lemma propagator_extractHandler_spanID:
  "propagator_extractHandler h cfg s k v = Inr s' \<Longrightarrow>
   (if strings_ToLower k \<noteq> TraceHeader cfg \<and> strings_ToLower k = ParentHeader cfg
    then parseUint64 h v = Some (spanID s')
    else spanID s' = spanID s)"
  by (auto simp add: propagator_extractHandler_def Let_def setSamplingPriority_def
      unmarshalPropagatingTags_def setBaggageItem_def split: if_splits option.splits prod.splits)

lemma propagator_extractHandler_origin:
  "propagator_extractHandler h cfg s k v = Inr s' \<Longrightarrow>
   (if strings_ToLower k \<noteq> TraceHeader cfg \<and> strings_ToLower k \<noteq> ParentHeader cfg \<and>
       strings_ToLower k \<noteq> PriorityHeader cfg \<and> strings_ToLower k = originHeader
    then origin s' = v
    else origin s' = origin s)"
  by (auto simp add: propagator_extractHandler_def Let_def setSamplingPriority_def
      unmarshalPropagatingTags_def setBaggageItem_def split: if_splits option.splits prod.splits)

lemma ForeachKey_traceID:
  "ForeachKey (propagator_extractHandler h cfg) s reader = Inr ctx \<Longrightarrow>
   (case lastValue (\<lambda>key. key = TraceHeader cfg) reader of
      None \<Rightarrow> traceID ctx = traceID s
    | Some v \<Rightarrow> parseUint64 h v = Some (traceID ctx))"
proof (induction reader arbitrary: ctx rule: rev_induct)
  case Nil
  then show ?case by simp
next
  case (snoc x xs)
  obtain k v where x: "x = (k, v)" by (cases x)
  from snoc.prems obtain s' where
    s': "ForeachKey (propagator_extractHandler h cfg) s xs = Inr s'" and
    st: "propagator_extractHandler h cfg s' k v = Inr ctx"
    by (auto simp add: x ForeachKey_snoc split: sum.splits)
  show ?case
    using snoc.IH[OF s'] propagator_extractHandler_traceID[OF st]
    by (auto simp add: x lastValue_snoc split: option.splits if_splits)
qed

lemma ForeachKey_spanID:
  "ForeachKey (propagator_extractHandler h cfg) s reader = Inr ctx \<Longrightarrow>
   (case lastValue (\<lambda>key. key \<noteq> TraceHeader cfg \<and> key = ParentHeader cfg) reader of
      None \<Rightarrow> spanID ctx = spanID s
    | Some v \<Rightarrow> parseUint64 h v = Some (spanID ctx))"
proof (induction reader arbitrary: ctx rule: rev_induct)
  case Nil
  then show ?case by simp
next
  case (snoc x xs)
  obtain k v where x: "x = (k, v)" by (cases x)
  from snoc.prems obtain s' where
    s': "ForeachKey (propagator_extractHandler h cfg) s xs = Inr s'" and
    st: "propagator_extractHandler h cfg s' k v = Inr ctx"
    by (auto simp add: x ForeachKey_snoc split: sum.splits)
  show ?case
    using snoc.IH[OF s'] propagator_extractHandler_spanID[OF st]
    by (auto simp add: x lastValue_snoc split: option.splits if_splits)
qed

lemma ForeachKey_origin:
  "ForeachKey (propagator_extractHandler h cfg) s reader = Inr ctx \<Longrightarrow>
   origin ctx =
     (case lastValue (\<lambda>key. key \<noteq> TraceHeader cfg \<and> key \<noteq> ParentHeader cfg \<and>
                           key \<noteq> PriorityHeader cfg \<and> key = originHeader) reader of
        None \<Rightarrow> origin s
      | Some v \<Rightarrow> v)"
proof (induction reader arbitrary: ctx rule: rev_induct)
  case Nil
  then show ?case by simp
next
  case (snoc x xs)
  obtain k v where x: "x = (k, v)" by (cases x)
  from snoc.prems obtain s' where
    s': "ForeachKey (propagator_extractHandler h cfg) s xs = Inr s'" and
    st: "propagator_extractHandler h cfg s' k v = Inr ctx"
    by (auto simp add: x ForeachKey_snoc split: sum.splits)
  show ?case
    using snoc.IH[OF s'] propagator_extractHandler_origin[OF st]
    by (auto simp add: x lastValue_snoc split: option.splits if_splits)
qed

lemma extract_synthetics:
  "propagator_extractTextMap specHelpers nilConfig
     [(''x-datadog-trace-id'', ''42''), (''x-datadog-origin'', ''synthetics'')] =
   Return (Some (SpanContextPtr (zeroSpanContext\<lparr>traceID := 42, origin := ''synthetics''\<rparr>)), None)"
  by (simp add: propagator_extractTextMap_def propagator_extractHandler_def nilConfig_def
      specHelpers_def lower_trace lower_origin parse42 zeroSpanContext_def
      DefaultTraceIDHeader_def DefaultParentIDHeader_def DefaultPriorityHeader_def originHeader_def)

lemma extract_synthetics_rev:
  "propagator_extractTextMap specHelpers nilConfig
     [(''x-datadog-origin'', ''synthetics''), (''x-datadog-trace-id'', ''42'')] =
   Return (Some (SpanContextPtr (zeroSpanContext\<lparr>traceID := 42, origin := ''synthetics''\<rparr>)), None)"
  by (simp add: propagator_extractTextMap_def propagator_extractHandler_def nilConfig_def
      specHelpers_def lower_trace lower_origin parse42 zeroSpanContext_def
      DefaultTraceIDHeader_def DefaultParentIDHeader_def DefaultPriorityHeader_def originHeader_def)

text \<open>
  Claim C5. When the handler returns no error on any pair of the carrier, first-party
  extraction returns the extracted context exactly when its trace id is non-zero and
  its span id is non-zero or its origin is \<open>synthetics\<close>; otherwise it returns the
  not-found error. The extracted trace id is the parsed value of the last pair whose
  lower-cased key is the trace header (0 when there is none), the span id likewise for
  the parent header, and the origin is the value of the last origin pair (empty when
  there is none). In particular the carrier with only \<open>x-datadog-trace-id = 42\<close> and
  \<open>x-datadog-origin = synthetics\<close>, visited in either order, gives the context with
  trace id 42, span id 0 and origin \<open>synthetics\<close>.
\<close>

theorem propagator_extractTextMap_validity:
  "(ForeachKey (propagator_extractHandler h cfg) zeroSpanContext reader = Inr ctx \<longrightarrow>
      propagator_extractTextMap h cfg reader =
        (if traceID ctx \<noteq> 0 \<and> (spanID ctx \<noteq> 0 \<or> origin ctx = ''synthetics'')
         then Return (Some (SpanContextPtr ctx), None)
         else Return (None, Some ErrSpanContextNotFound)) \<and>
      (case lastValue (\<lambda>key. key = TraceHeader cfg) reader of
         None \<Rightarrow> traceID ctx = 0
       | Some v \<Rightarrow> parseUint64 h v = Some (traceID ctx)) \<and>
      (case lastValue (\<lambda>key. key \<noteq> TraceHeader cfg \<and> key = ParentHeader cfg) reader of
         None \<Rightarrow> spanID ctx = 0
       | Some v \<Rightarrow> parseUint64 h v = Some (spanID ctx)) \<and>
      origin ctx =
        (case lastValue (\<lambda>key. key \<noteq> TraceHeader cfg \<and> key \<noteq> ParentHeader cfg \<and>
                              key \<noteq> PriorityHeader cfg \<and> key = originHeader) reader of
           None \<Rightarrow> []
         | Some v \<Rightarrow> v)) \<and>
   propagator_extractTextMap specHelpers nilConfig
     [(''x-datadog-trace-id'', ''42''), (''x-datadog-origin'', ''synthetics'')] =
     Return (Some (SpanContextPtr (zeroSpanContext\<lparr>traceID := 42, origin := ''synthetics''\<rparr>)), None) \<and>
   propagator_extractTextMap specHelpers nilConfig
     [(''x-datadog-origin'', ''synthetics''), (''x-datadog-trace-id'', ''42'')] =
     Return (Some (SpanContextPtr (zeroSpanContext\<lparr>traceID := 42, origin := ''synthetics''\<rparr>)), None)"
proof (intro conjI impI)
  assume a: "ForeachKey (propagator_extractHandler h cfg) zeroSpanContext reader = Inr ctx"
  show "propagator_extractTextMap h cfg reader =
        (if traceID ctx \<noteq> 0 \<and> (spanID ctx \<noteq> 0 \<or> origin ctx = ''synthetics'')
         then Return (Some (SpanContextPtr ctx), None)
         else Return (None, Some ErrSpanContextNotFound))"
    by (simp add: propagator_extractTextMap_def a)
  show "case lastValue (\<lambda>key. key = TraceHeader cfg) reader of
         None \<Rightarrow> traceID ctx = 0
       | Some v \<Rightarrow> parseUint64 h v = Some (traceID ctx)"
    using ForeachKey_traceID[OF a] by (simp add: zeroSpanContext_def split: option.splits)
  show "case lastValue (\<lambda>key. key \<noteq> TraceHeader cfg \<and> key = ParentHeader cfg) reader of
         None \<Rightarrow> spanID ctx = 0
       | Some v \<Rightarrow> parseUint64 h v = Some (spanID ctx)"
    using ForeachKey_spanID[OF a] by (simp add: zeroSpanContext_def split: option.splits)
  show "origin ctx =
        (case lastValue (\<lambda>key. key \<noteq> TraceHeader cfg \<and> key \<noteq> ParentHeader cfg \<and>
                              key \<noteq> PriorityHeader cfg \<and> key = originHeader) reader of
           None \<Rightarrow> []
         | Some v \<Rightarrow> v)"
    using ForeachKey_origin[OF a] by (simp add: zeroSpanContext_def split: option.splits)
qed (rule extract_synthetics, rule extract_synthetics_rev)

lemma ForeachKey_synthetics:
  "ForeachKey (propagator_extractHandler specHelpers nilConfig) zeroSpanContext
     [(''x-datadog-trace-id'', ''42''), (''x-datadog-origin'', ''synthetics'')] =
   Inr (zeroSpanContext\<lparr>traceID := 42, origin := ''synthetics''\<rparr>)"
  by (simp add: propagator_extractHandler_def nilConfig_def
      specHelpers_def lower_trace lower_origin parse42 zeroSpanContext_def
      DefaultTraceIDHeader_def DefaultParentIDHeader_def DefaultPriorityHeader_def originHeader_def)

lemma ForeachKey_trace_only:
  "ForeachKey (propagator_extractHandler specHelpers nilConfig) zeroSpanContext
     [(''x-datadog-trace-id'', ''42'')] =
   Inr (zeroSpanContext\<lparr>traceID := 42\<rparr>)"
  by (simp add: propagator_extractHandler_def nilConfig_def
      specHelpers_def lower_trace parse42 zeroSpanContext_def DefaultTraceIDHeader_def)

theorem propagator_extractTextMap_validity_witness:
  "ForeachKey (propagator_extractHandler specHelpers nilConfig) zeroSpanContext
     [(''x-datadog-trace-id'', ''42''), (''x-datadog-origin'', ''synthetics'')] =
     Inr (zeroSpanContext\<lparr>traceID := 42, origin := ''synthetics''\<rparr>) \<and>
   propagator_extractTextMap specHelpers nilConfig
     [(''x-datadog-trace-id'', ''42''), (''x-datadog-origin'', ''synthetics'')] =
     Return (Some (SpanContextPtr (zeroSpanContext\<lparr>traceID := 42, origin := ''synthetics''\<rparr>)), None) \<and>
   ForeachKey (propagator_extractHandler specHelpers nilConfig) zeroSpanContext
     [(''x-datadog-trace-id'', ''42'')] = Inr (zeroSpanContext\<lparr>traceID := 42\<rparr>) \<and>
   propagator_extractTextMap specHelpers nilConfig [(''x-datadog-trace-id'', ''42'')] =
     Return (None, Some ErrSpanContextNotFound)"
proof -
  have one:
    "propagator_extractTextMap specHelpers nilConfig
       [(''x-datadog-trace-id'', ''42''), (''x-datadog-origin'', ''synthetics'')] =
     Return (Some (SpanContextPtr (zeroSpanContext\<lparr>traceID := 42, origin := ''synthetics''\<rparr>)), None)"
    using propagator_extractTextMap_validity
            [where h = specHelpers and cfg = nilConfig
               and reader = "[(''x-datadog-trace-id'', ''42''), (''x-datadog-origin'', ''synthetics'')]"
               and ctx = "zeroSpanContext\<lparr>traceID := 42, origin := ''synthetics''\<rparr>"]
      ForeachKey_synthetics
    by (simp add: zeroSpanContext_def)
  have two:
    "propagator_extractTextMap specHelpers nilConfig [(''x-datadog-trace-id'', ''42'')] =
     Return (None, Some ErrSpanContextNotFound)"
    using propagator_extractTextMap_validity
            [where h = specHelpers and cfg = nilConfig
               and reader = "[(''x-datadog-trace-id'', ''42'')]"
               and ctx = "zeroSpanContext\<lparr>traceID := 42\<rparr>"]
      ForeachKey_trace_only
    by (simp add: zeroSpanContext_def)
  show ?thesis
    using one two ForeachKey_synthetics ForeachKey_trace_only by blast
qed

subsection \<open>Oversized tags header\<close>

text \<open>
  Claim C6. When the string handed to \<open>unmarshalPropagatingTags\<close> is longer than 512
  bytes, the propagating tags of the trace state stay what they were (none, for a
  context without trace state), the local tag \<open>keyPropagationError\<close> of the trace is set
  to \<open>extract_max_size\<close>, and nothing else of the context changes; the parser is not
  consulted.
\<close>

theorem unmarshalPropagatingTags_oversized:
  "512 < length v \<Longrightarrow>
     (case trace (unmarshalPropagatingTags h ctx v) of
        None \<Rightarrow> False
      | Some t' \<Rightarrow>
          propagatingTags t' = (case trace ctx of None \<Rightarrow> None | Some t \<Rightarrow> propagatingTags t) \<and>
          tags t' keyPropagationError = Some ''extract_max_size'') \<and>
     unmarshalPropagatingTags h ctx v = unmarshalPropagatingTags h' ctx v \<and>
     unmarshalPropagatingTags h ctx v =
       ctx\<lparr>trace := Some (setTag (case trace ctx of None \<Rightarrow> newTrace | Some t \<Rightarrow> t)
                             keyPropagationError ''extract_max_size'')\<rparr>"
  by (simp add: unmarshalPropagatingTags_def propagationExtractMaxSize_def setTag_def newTrace_def
      split: option.splits)

theorem unmarshalPropagatingTags_oversized_witness:
  "512 < length (replicate 513 (CHR ''a'')) \<and>
   trace (unmarshalPropagatingTags specHelpers zeroSpanContext (replicate 513 (CHR ''a''))) =
     Some \<lparr>propagatingTags = None, tags = [keyPropagationError \<mapsto> ''extract_max_size'']\<rparr>"
proof -
  have len: "512 < length (replicate 513 (CHR ''a''))" by simp
  show ?thesis
    using len unmarshalPropagatingTags_oversized
                [OF len, where h = specHelpers and ctx = zeroSpanContext and h' = specHelpers]
    by (simp add: zeroSpanContext_def setTag_def newTrace_def)
qed

subsection \<open>B3 extraction of long trace ids\<close>

lemma ForeachKey_append:
  "ForeachKey f s (xs @ ys) =
     (case ForeachKey f s xs of Inl e \<Rightarrow> Inl e | Inr s' \<Rightarrow> ForeachKey f s' ys)"
  by (induction xs arbitrary: s) (auto split: sum.splits)

lemma ForeachKey_change_pair:
  "(\<And>s'. f s' k v = f s' k v') \<Longrightarrow>
   ForeachKey f s (pre @ (k, v) # post) = ForeachKey f s (pre @ (k, v') # post)"
  by (simp add: ForeachKey_append split: sum.splits)

lemma parseDigits_acc:
  "parseDigits base m b =
     (case parseDigits base 0 b of None \<Rightarrow> None | Some nb \<Rightarrow> Some (m * base ^ length b + nb))"
proof (induction b arbitrary: m)
  case Nil
  then show ?case by simp
next
  case (Cons c cs)
  show ?case
  proof (cases "digitVal c")
    case None
    then show ?thesis by simp
  next
    case (Some d)
    show ?thesis
    proof (cases "base \<le> d")
      case True
      then show ?thesis using Some by simp
    next
      case False
      have l: "parseDigits base m (c # cs) = parseDigits base (m * base + d) cs"
        using Some False by simp
      have r: "parseDigits base 0 (c # cs) = parseDigits base d cs"
        using Some False by simp
      show ?thesis
        unfolding l r
        by (subst Cons.IH[of "m * base + d"], subst Cons.IH[of d])
           (simp add: algebra_simps split: option.splits)
    qed
  qed
qed

lemma parseDigits_bound:
  "parseDigits base 0 b = Some nb \<Longrightarrow> nb < base ^ length b"
proof (induction b arbitrary: nb)
  case Nil
  then show ?case by simp
next
  case (Cons c cs)
  from Cons.prems obtain d where d: "digitVal c = Some d" "d < base"
    and p: "parseDigits base d cs = Some nb"
    by (auto split: option.splits if_splits)
  have "parseDigits base d cs =
          (case parseDigits base 0 cs of None \<Rightarrow> None | Some n \<Rightarrow> Some (d * base ^ length cs + n))"
    by (rule parseDigits_acc)
  with p obtain n where n: "parseDigits base 0 cs = Some n" and nb: "nb = d * base ^ length cs + n"
    by (auto split: option.splits)
  have "n < base ^ length cs" using Cons.IH[OF n] .
  then have "nb < (d + 1) * base ^ length cs" using nb by (simp add: algebra_simps)
  also have "\<dots> \<le> base * base ^ length cs" using d(2) by (intro mult_right_mono) simp_all
  finally show ?case by simp
qed

lemma word_of_nat_low64: "(word_of_nat (m * 16 ^ 16 + nb) :: 64 word) = word_of_nat nb"
proof -
  have "(m * 16 ^ 16 + nb) mod 2 ^ 64 = nb mod 2 ^ 64" by simp
  then show ?thesis
    unfolding word_of_nat_eq_iff take_bit_eq_mod by simp
qed

lemma strconv_ParseUint_low64:
  assumes "parseDigits 16 0 v = Some n" and "16 < length v"
  shows "strconv_ParseUint (drop (length v - 16) v) 16 = Some (word_of_nat n)"
proof -
  let ?a = "take (length v - 16) v" and ?b = "drop (length v - 16) v"
  have lb: "length ?b = 16" using assms(2) by simp
  have "parseDigits 16 0 (?a @ ?b) =
          (case parseDigits 16 0 ?a of None \<Rightarrow> None | Some m \<Rightarrow> parseDigits 16 m ?b)"
    by (rule parseDigits_append)
  with assms(1) obtain m where m: "parseDigits 16 0 ?a = Some m" and r: "parseDigits 16 m ?b = Some n"
    by (auto split: option.splits)
  have "parseDigits 16 m ?b =
          (case parseDigits 16 0 ?b of None \<Rightarrow> None | Some nb \<Rightarrow> Some (m * 16 ^ 16 + nb))"
    using parseDigits_acc[of 16 m ?b] by (simp only: lb)
  with r obtain nb where nb: "parseDigits 16 0 ?b = Some nb" and n: "n = m * 16 ^ 16 + nb"
    by (auto split: option.splits)
  have "nb < 16 ^ 16" using parseDigits_bound[OF nb] lb by simp
  then have small: "nb < 2 ^ 64" by simp
  have ne: "?b \<noteq> []" using lb by auto
  have w: "(word_of_nat n :: 64 word) = word_of_nat nb"
    unfolding n by (rule word_of_nat_low64)
  show ?thesis
    using ne nb small by (simp add: strconv_ParseUint_def w)
qed

lemma propagatorB3_extractHandler_traceid:
  "strings_ToLower k = b3TraceIDHeader \<Longrightarrow>
   propagatorB3_extractHandler ctx k v =
     (case strconv_ParseUint (if 16 < length v then drop (length v - 16) v else v) 16 of
        None \<Rightarrow> Inl ErrSpanContextCorrupted
      | Some n \<Rightarrow> Inr (ctx\<lparr>traceID := n\<rparr>))"
  by (simp add: propagatorB3_extractHandler_def Let_def)

lemma lower_b3_traceid: "strings_ToLower ''X-B3-TraceId'' = ''x-b3-traceid''"
  by (simp add: strings_ToLower_def toLowerByte_def char_of_eq_iff)

lemma parse_hex_low: "strconv_ParseUint ''48485a3953bb6124'' 16 = Some 5208512171318403364"
  by (simp add: strconv_ParseUint_def digitVal_def)

lemma parse_hex_2a: "strconv_ParseUint ''2a'' 16 = Some 42"
  by (simp add: strconv_ParseUint_def digitVal_def)

lemma parse_hex_128:
  "parseDigits 16 0 ''463ac35c9f6413ad48485a3953bb6124'' = Some 93351075330931896558786731617803788580"
  by (simp add: digitVal_def)

text \<open>
  Claim C7. For a pair whose lower-cased key is \<open>x-b3-traceid\<close>: when the value is
  longer than 16 bytes, only its last 16 bytes are parsed as the hexadecimal trace id,
  so that the whole extraction is the one of the carrier with the shortened value;
  when the whole value is a hexadecimal number \<open>n\<close>, the trace id is \<open>n\<close> modulo
  \<open>2^64\<close> (its low 64 bits). A value of at most 16 bytes is parsed whole.
\<close>

theorem propagatorB3_extract_trailing_16:
  "strings_ToLower k = ''x-b3-traceid'' \<Longrightarrow>
     (16 < length v \<longrightarrow>
        propagatorB3_extractHandler ctx k v =
          (case strconv_ParseUint (drop (length v - 16) v) 16 of
             None \<Rightarrow> Inl ErrSpanContextCorrupted
           | Some n \<Rightarrow> Inr (ctx\<lparr>traceID := n\<rparr>)) \<and>
        propagatorB3_extractTextMap (pre @ (k, v) # post) =
          propagatorB3_extractTextMap (pre @ (k, drop (length v - 16) v) # post)) \<and>
     (16 < length v \<and> parseDigits 16 0 v = Some n \<longrightarrow>
        propagatorB3_extractHandler ctx k v = Inr (ctx\<lparr>traceID := word_of_nat n\<rparr>)) \<and>
     (length v \<le> 16 \<longrightarrow>
        propagatorB3_extractHandler ctx k v =
          (case strconv_ParseUint v 16 of
             None \<Rightarrow> Inl ErrSpanContextCorrupted
           | Some n \<Rightarrow> Inr (ctx\<lparr>traceID := n\<rparr>)))"
proof -
  assume "strings_ToLower k = ''x-b3-traceid''"
  then have k: "strings_ToLower k = b3TraceIDHeader" by (simp add: b3TraceIDHeader_def)
  note h = propagatorB3_extractHandler_traceid[OF k]
  have same: "16 < length v \<Longrightarrow>
      propagatorB3_extractHandler s k v = propagatorB3_extractHandler s k (drop (length v - 16) v)" for s
    by (simp add: h)
  have whole: "16 < length v \<Longrightarrow>
      propagatorB3_extractTextMap (pre @ (k, v) # post) =
      propagatorB3_extractTextMap (pre @ (k, drop (length v - 16) v) # post)"
    using ForeachKey_change_pair[of propagatorB3_extractHandler k v "drop (length v - 16) v"
            zeroSpanContext pre post] same
    by (simp add: propagatorB3_extractTextMap_def)
  show ?thesis
    using whole by (auto simp add: h strconv_ParseUint_low64)
qed

theorem propagatorB3_extract_trailing_16_witness:
  "strings_ToLower ''X-B3-TraceId'' = ''x-b3-traceid'' \<and>
   16 < length ''463ac35c9f6413ad48485a3953bb6124'' \<and>
   propagatorB3_extractHandler zeroSpanContext ''X-B3-TraceId'' ''463ac35c9f6413ad48485a3953bb6124'' =
     Inr (zeroSpanContext\<lparr>traceID := 5208512171318403364\<rparr>) \<and>
   parseDigits 16 0 ''463ac35c9f6413ad48485a3953bb6124'' = Some 93351075330931896558786731617803788580 \<and>
   propagatorB3_extractHandler zeroSpanContext ''X-B3-TraceId'' ''463ac35c9f6413ad48485a3953bb6124'' =
     Inr (zeroSpanContext\<lparr>traceID := word_of_nat 93351075330931896558786731617803788580\<rparr>) \<and>
   propagatorB3_extractTextMap
     ([] @ (''X-B3-TraceId'', ''463ac35c9f6413ad48485a3953bb6124'') # [(''x-b3-spanid'', ''2a'')]) =
   propagatorB3_extractTextMap
     ([] @ (''X-B3-TraceId'', ''48485a3953bb6124'') # [(''x-b3-spanid'', ''2a'')]) \<and>
   length ''2a'' \<le> 16 \<and>
   propagatorB3_extractHandler zeroSpanContext ''X-B3-TraceId'' ''2a'' =
     Inr (zeroSpanContext\<lparr>traceID := 42\<rparr>)"
proof -
  note t = propagatorB3_extract_trailing_16 [OF lower_b3_traceid]
  have long: "16 < length ''463ac35c9f6413ad48485a3953bb6124''" by simp
  have short: "length ''2a'' \<le> 16" by simp
  have one:
    "propagatorB3_extractHandler zeroSpanContext ''X-B3-TraceId'' ''463ac35c9f6413ad48485a3953bb6124'' =
       Inr (zeroSpanContext\<lparr>traceID := 5208512171318403364\<rparr>)"
    using t [where v = "''463ac35c9f6413ad48485a3953bb6124''" and ctx = zeroSpanContext]
    by (simp add: parse_hex_low)
  have two:
    "propagatorB3_extractTextMap
       ([] @ (''X-B3-TraceId'', ''463ac35c9f6413ad48485a3953bb6124'') # [(''x-b3-spanid'', ''2a'')]) =
     propagatorB3_extractTextMap
       ([] @ (''X-B3-TraceId'', ''48485a3953bb6124'') # [(''x-b3-spanid'', ''2a'')])"
    using t [where v = "''463ac35c9f6413ad48485a3953bb6124''" and pre = "[]"
               and post = "[(''x-b3-spanid'', ''2a'')]"]
    by simp
  have three:
    "propagatorB3_extractHandler zeroSpanContext ''X-B3-TraceId'' ''2a'' =
       Inr (zeroSpanContext\<lparr>traceID := 42\<rparr>)"
    using t [where v = "''2a''" and ctx = zeroSpanContext]
    by (simp add: parse_hex_2a)
  have four:
    "propagatorB3_extractHandler zeroSpanContext ''X-B3-TraceId'' ''463ac35c9f6413ad48485a3953bb6124'' =
       Inr (zeroSpanContext\<lparr>traceID := word_of_nat 93351075330931896558786731617803788580\<rparr>)"
    using t [where v = "''463ac35c9f6413ad48485a3953bb6124''" and ctx = zeroSpanContext
               and n = 93351075330931896558786731617803788580]
      long parse_hex_128
    by blast
  show ?thesis
    using lower_b3_traceid long short one two three four parse_hex_128 by blast
qed

subsection \<open>The choice of propagators\<close>

lemma getPropagators_loop_B3:
  "B3 cfg \<Longrightarrow>
   getPropagators_loop cfg vs list =
     list @ replicate (length (filter (\<lambda>v. strings_ToLower v = ''datadog'') vs)) (propagator cfg)"
proof (induction vs arbitrary: list)
  case Nil
  then show ?case by simp
next
  case (Cons v vs)
  show ?case
    using Cons.prems Cons.IH[OF Cons.prems, of list]
      Cons.IH[OF Cons.prems, of "list @ [propagator cfg]"]
    by (simp add: Let_def replicate_app_Cons_same)
qed

lemma split_datadog: "strings_Split ''datadog'' (CHR '','') = [''datadog'']"
  by simp

lemma lower_datadog: "strings_ToLower ''datadog'' = ''datadog''"
  by (simp add: strings_ToLower_def toLowerByte_def char_of_eq_iff)

lemma lower_foo: "strings_ToLower ''foo'' = ''foo''"
  by (simp add: strings_ToLower_def toLowerByte_def char_of_eq_iff)

text \<open>What does hold of the selector: when it resolves to exactly \<open>none\<close> the list is
  empty, the chained injection makes no \<open>Set\<close> call and the chained extraction returns
  the not-found error; and without the B3 flag, a selector whose tokens are all
  unrecognized gives the default list.\<close>
lemma getPropagators_loop_unrecognized:
  "\<not> B3 cfg \<Longrightarrow>
   list_all (\<lambda>v. strings_ToLower v \<notin> {''datadog'', ''b3'', ''b3multi''}) vs \<Longrightarrow>
   getPropagators_loop cfg vs list = list"
  by (induction vs arbitrary: list) (simp_all add: Let_def)

lemma getPropagators_none_and_unrecognized:
  "((if arg = [] then getenv headerPropagationStyle else arg) = ''none'' \<longrightarrow>
      getPropagators getenv cfg arg = [] \<and>
      chainedPropagator_Inject h \<lparr>injectors = getPropagators getenv cfg arg, extractors = es\<rparr> spanCtx c =
        \<lparr>ctxAfter = spanCtx, sets = [], result = Return None\<rparr> \<and>
      chainedPropagator_Extract h \<lparr>injectors = js, extractors = getPropagators getenv cfg arg\<rparr> c =
        Return (None, Some ErrSpanContextNotFound)) \<and>
   (\<not> B3 cfg \<and> (if arg = [] then getenv headerPropagationStyle else arg) = ps \<and> ps \<noteq> [] \<and> ps \<noteq> ''none'' \<and>
    list_all (\<lambda>v. strings_ToLower v \<notin> {''datadog'', ''b3'', ''b3multi''}) (strings_Split ps (CHR '','')) \<longrightarrow>
      getPropagators getenv cfg arg = [propagator cfg])"
  by (auto simp add: getPropagators_def Let_def chainedPropagator_Inject_def
      chainedPropagator_Extract_def getPropagators_loop_unrecognized)

text \<open>
  Claim C10. When the B3 flag of the configuration is set and the selector resolved
  for a direction (the argument, or the generic variable when the argument is empty) is
  neither empty nor \<open>none\<close>, the list of propagators is the B3 propagator followed by
  one first-party propagator for each \<open>datadog\<close> token of the selector: B3 comes
  first and no selector leaves it out. In particular the selector \<open>datadog\<close> gives
  B3, then first-party.
\<close>

theorem getPropagators_B3_first:
  "(B3 cfg \<and> (if arg = [] then getenv headerPropagationStyle else arg) = ps \<and>
    ps \<noteq> [] \<and> ps \<noteq> ''none'' \<longrightarrow>
      getPropagators getenv cfg arg =
        propagatorB3 #
        replicate (length (filter (\<lambda>v. strings_ToLower v = ''datadog'') (strings_Split ps (CHR '','')))) 
          (propagator cfg)) \<and>
   getPropagators getenv (cfg\<lparr>B3 := True\<rparr>) ''datadog'' =
     [propagatorB3, propagator (cfg\<lparr>B3 := True\<rparr>)]"
proof (intro conjI impI)
  assume a: "B3 cfg \<and> (if arg = [] then getenv headerPropagationStyle else arg) = ps \<and>
    ps \<noteq> [] \<and> ps \<noteq> ''none''"
  then show "getPropagators getenv cfg arg =
        propagatorB3 #
        replicate (length (filter (\<lambda>v. strings_ToLower v = ''datadog'') (strings_Split ps (CHR '','')))) 
          (propagator cfg)"
    by (auto simp add: getPropagators_def Let_def getPropagators_loop_B3)
next
  have b: "B3 (cfg\<lparr>B3 := True\<rparr>)" by simp
  show "getPropagators getenv (cfg\<lparr>B3 := True\<rparr>) ''datadog'' =
     [propagatorB3, propagator (cfg\<lparr>B3 := True\<rparr>)]"
    by (simp add: getPropagators_def Let_def getPropagators_loop_B3[OF b] lower_datadog)
qed

theorem getPropagators_B3_first_witness:
  "B3 (nilConfig\<lparr>B3 := True\<rparr>) \<and>
   getPropagators (\<lambda>name. if name = headerPropagationStyle then ''Datadog,b3,foo,datadog'' else [])
     (nilConfig\<lparr>B3 := True\<rparr>) [] =
     [propagatorB3, propagator (nilConfig\<lparr>B3 := True\<rparr>), propagator (nilConfig\<lparr>B3 := True\<rparr>)]"
proof -
  let ?env = "\<lambda>name. if name = headerPropagationStyle then ''Datadog,b3,foo,datadog'' else []"
  have toks: "strings_Split ''Datadog,b3,foo,datadog'' (CHR '','') = [''Datadog'', ''b3'', ''foo'', ''datadog'']"
    by simp
  have low: "strings_ToLower ''Datadog'' = ''datadog''" "strings_ToLower ''b3'' \<noteq> ''datadog''"
    "strings_ToLower ''foo'' \<noteq> ''datadog''"
    by (simp_all add: strings_ToLower_def toLowerByte_def char_of_eq_iff)
  show ?thesis
    using getPropagators_B3_first
            [where cfg = "nilConfig\<lparr>B3 := True\<rparr>" and arg = "[]" and getenv = ?env
               and ps = "''Datadog,b3,foo,datadog''"]
    by (simp add: toks low lower_datadog)
qed

text \<open>
  Claim C9, at an input where the code departs from it. With the B3 flag set and the
  selector \<open>foo\<close>, whose only token is unrecognized, \<open>getPropagators\<close> returns the
  B3 propagator alone, whereas the default list of that configuration is the
  first-party propagator followed by B3; the same holds for the extractors that
  \<open>NewPropagator\<close> builds when \<open>DD_TRACE_PROPAGATION_STYLE_EXTRACT\<close> is \<open>foo\<close>.
\<close>

theorem getPropagators_unrecognized_with_B3:
  "getPropagators (\<lambda>name. []) (nilConfig\<lparr>B3 := True\<rparr>) ''foo'' = [propagatorB3] \<and>
   getPropagators (\<lambda>name. []) (nilConfig\<lparr>B3 := True\<rparr>) [] =
     [propagator (nilConfig\<lparr>B3 := True\<rparr>), propagatorB3] \<and>
   extractors
     (NewPropagator (\<lambda>name. if name = headerPropagationStyleExtract then ''foo'' else [])
        (Some (nilConfig\<lparr>B3 := True\<rparr>)) []) = [propagatorB3]"
proof -
  have b: "B3 (nilConfig\<lparr>B3 := True\<rparr>)" by simp
  have one: "getPropagators getenv (nilConfig\<lparr>B3 := True\<rparr>) ''foo'' = [propagatorB3]" for getenv
    by (simp add: getPropagators_def Let_def getPropagators_loop_B3[OF b] lower_foo)
  have two: "getPropagators (\<lambda>name. []) (nilConfig\<lparr>B3 := True\<rparr>) [] =
     [propagator (nilConfig\<lparr>B3 := True\<rparr>), propagatorB3]"
    by (simp add: getPropagators_def Let_def)
  have cfg: "BaggagePrefix nilConfig \<noteq> []" "TraceHeader nilConfig \<noteq> []" "ParentHeader nilConfig \<noteq> []"
    "PriorityHeader nilConfig \<noteq> []"
    by (simp_all add: nilConfig_def DefaultBaggageHeaderPrefix_def DefaultTraceIDHeader_def
        DefaultParentIDHeader_def DefaultPriorityHeader_def)
  have three: "extractors
     (NewPropagator (\<lambda>name. if name = headerPropagationStyleExtract then ''foo'' else [])
        (Some (nilConfig\<lparr>B3 := True\<rparr>)) []) = [propagatorB3]"
    by (simp add: NewPropagator_def Let_def cfg one)
  show ?thesis using one two three by blast
qed

subsection \<open>Serializing the propagating tags\<close>

text \<open>The string that the loop returns is longer than the limit by at most the two
  separators of the last pair written.\<close>

lemma marshalPropagatingTags_loop_bound:
  "int (length (fst (marshalPropagatingTags_loop h maxLen kvs sb t))) \<le>
     max (int (length sb)) (maxLen + 2)"
proof (induction kvs arbitrary: sb t)
  case Nil
  then show ?case by simp
next
  case (Cons kv kvs)
  obtain k v where kv: "kv = (k, v)" by (cases kv)
  show ?case
  proof (cases "isValidPropagatableTag h k v")
    case False
    then show ?thesis
      using Cons.IH[of sb "setTag t keyPropagationError ''encoding_error''"] by (simp add: kv)
  next
    case True
    show ?thesis
    proof (cases "maxLen < int (length sb) + int (length k) + int (length v)")
      case over: True
      then show ?thesis using True by (simp add: kv)
    next
      case fits: False
      let ?sb = "(if 0 < length sb then sb @ '','' else sb) @ k @ ''='' @ v"
      have "int (length ?sb) \<le> maxLen + 2" using fits by simp
      then have "max (int (length ?sb)) (maxLen + 2) = maxLen + 2" by simp
      then show ?thesis
        using Cons.IH[of ?sb t] True fits by (simp add: kv)
    qed
  qed
qed

text \<open>The serialization is all or nothing as far as the valid pairs go: the result is
  empty with the diagnostic \<open>inject_max_size\<close> recorded, or it is the join of every
  valid pair.\<close>

lemma marshalPropagatingTags_loop_all_or_nothing:
  "marshalPropagatingTags_loop h maxLen kvs sb t = (s, t') \<Longrightarrow>
     (s = [] \<and> tags t' keyPropagationError = Some ''inject_max_size'') \<or>
     s = foldl (\<lambda>sb (k, v). (if 0 < length sb then sb @ '','' else sb) @ k @ ''='' @ v) sb
           (filter (\<lambda>(k, v). isValidPropagatableTag h k v) kvs)"
proof (induction kvs arbitrary: sb t)
  case Nil
  then show ?case by simp
next
  case (Cons kv kvs)
  obtain k v where kv: "kv = (k, v)" by (cases kv)
  show ?case
    using Cons.prems Cons.IH
    by (auto simp add: kv setTag_def split: if_splits)
qed

lemma format42: "strconv_FormatUint 42 10 = ''42''"
  by (simp add: strconv_FormatUint_def formatBase.simps digitChar_def)
lemma format52: "strconv_FormatUint 52 10 = ''52''"
  by (simp add: strconv_FormatUint_def formatBase.simps digitChar_def)

lemma valid_dm: "isValidPropagatableTag_spec ''_dd.p.dm'' ''-4''"
  by (simp add: isValidPropagatableTag_spec_def printable_def)

text \<open>
  Claim C3, at an input where the code departs from it. With \<open>MaxTagsHeaderLen = 10\<close>
  and the single propagating tag \<open>_dd.p.dm = -4\<close>, \<open>marshalPropagatingTags\<close> returns
  the string \<open>_dd.p.dm=-4\<close> of 11 bytes and records no diagnostic, and the injection
  writes it under \<open>x-datadog-tags\<close>: the size test adds the lengths of the key and of
  the value to the length so far, but not the separators that are written with them.
\<close>

theorem marshalPropagatingTags_exceeds_limit:
  "marshalPropagatingTags specHelpers (nilConfig\<lparr>MaxTagsHeaderLen := 10\<rparr>)
     (zeroSpanContext\<lparr>traceID := 42, spanID := 52,
        trace := Some \<lparr>propagatingTags = Some [(''_dd.p.dm'', ''-4'')], tags = Map.empty\<rparr>\<rparr>) =
     (''_dd.p.dm=-4'',
      zeroSpanContext\<lparr>traceID := 42, spanID := 52,
        trace := Some \<lparr>propagatingTags = Some [(''_dd.p.dm'', ''-4'')], tags = Map.empty\<rparr>\<rparr>) \<and>
   MaxTagsHeaderLen (nilConfig\<lparr>MaxTagsHeaderLen := 10\<rparr>) < int (length ''_dd.p.dm=-4'') \<and>
   sets (propagator_injectTextMap specHelpers (nilConfig\<lparr>MaxTagsHeaderLen := 10\<rparr>)
           (SpanContextPtr
              (zeroSpanContext\<lparr>traceID := 42, spanID := 52,
                 trace := Some \<lparr>propagatingTags = Some [(''_dd.p.dm'', ''-4'')], tags = Map.empty\<rparr>\<rparr>))) =
     [(''x-datadog-trace-id'', ''42''), (''x-datadog-parent-id'', ''52''),
      (''x-datadog-tags'', ''_dd.p.dm=-4'')]"
proof -
  let ?cfg = "nilConfig\<lparr>MaxTagsHeaderLen := 10\<rparr>"
  let ?ctx = "zeroSpanContext\<lparr>traceID := 42, spanID := 52,
        trace := Some \<lparr>propagatingTags = Some [(''_dd.p.dm'', ''-4'')], tags = Map.empty\<rparr>\<rparr>"
  have m: "marshalPropagatingTags specHelpers ?cfg ?ctx = (''_dd.p.dm=-4'', ?ctx)"
    by (simp add: marshalPropagatingTags_def specHelpers_def valid_dm zeroSpanContext_def nilConfig_def)
  have l: "MaxTagsHeaderLen ?cfg < int (length ''_dd.p.dm=-4'')" by simp
  have i: "sets (propagator_injectTextMap specHelpers ?cfg (SpanContextPtr ?ctx)) =
     [(''x-datadog-trace-id'', ''42''), (''x-datadog-parent-id'', ''52''),
      (''x-datadog-tags'', ''_dd.p.dm=-4'')]"
    using m
    by (simp add: propagator_injectTextMap_def format42 format52 samplingPriority_def
        zeroSpanContext_def nilConfig_def DefaultTraceIDHeader_def DefaultParentIDHeader_def
        traceTagsHeader_def)
  show ?thesis using m l i by blast
qed

end
